theory Spec2Isabelle
  imports Complex_Main "HOL-Library.Word" "HOL-Library.Sublist"
begin

section \<open>note-outline-api: the outline endpoint of server.js\<close>

text \<open>
  The file \<^verbatim>\<open>src/server.js\<close> holds two listings of the server. The first one
  (lines 1-214) has \<^verbatim>\<open>requireAuth\<close>, \<^verbatim>\<open>handleNoteTopOutline\<close> behind a GET and a POST
  route, and \<^verbatim>\<open>extractHeadings\<close> wrapped in try/catch. The second one (lines 215-356)
  has \<^verbatim>\<open>requireAuth\<close>, one POST route with the handler inline, and \<^verbatim>\<open>extractHeadings\<close>
  without try/catch. Both are embedded. A definition taken from the first listing keeps
  the source's name; the one taken from the second listing carries a prime.
\<close>

subsection \<open>JavaScript values\<close>

text \<open>
  A JavaScript string is a sequence of UTF-16 code units. \<open>js\<close> turns an ASCII literal
  into one.
\<close>

type_synonym jschar = "16 word"
type_synonym jsstring = "jschar list"

definition js :: "string \<Rightarrow> jsstring" where
  "js s = map of_char s"

text \<open>
  A Number is a finite value or one of NaN, +Infinity, -Infinity. The finite doubles
  are rationals; the handler only compares them, so the rounding of arithmetic plays
  no part.
\<close>

datatype jsnum = NaN | PosInf | NegInf | Fin rat

text \<open>
  A value as it comes out of a JSON body or a query string, and undefined for what is
  absent. The fields of an object carry distinct names.
\<close>

datatype jsval =
    Undefined
  | Null
  | Bool bool
  | Num jsnum
  | Str jsstring
  | Arr "jsval list"
  | Obj "(jsstring \<times> jsval) list"

text \<open>Truthiness, and \<^verbatim>\<open>a || b\<close>.\<close>

fun truthy :: "jsval \<Rightarrow> bool" where
  "truthy Undefined = False"
| "truthy Null = False"
| "truthy (Bool b) = b"
| "truthy (Num NaN) = False"
| "truthy (Num (Fin q)) = (q \<noteq> 0)"
| "truthy (Num _) = True"
| "truthy (Str s) = (s \<noteq> [])"
| "truthy (Arr _) = True"
| "truthy (Obj _) = True"

definition or_js :: "jsval \<Rightarrow> jsval \<Rightarrow> jsval" where
  "or_js a b = (if truthy a then a else b)"

text \<open>
  The two conversions of the language that are not written out here, the parsing of a
  numeric string and the printing of a number, are parameters of the model.
\<close>

record runtime =
  StringToNumber :: "jsstring \<Rightarrow> jsnum"
  NumberToString :: "jsnum \<Rightarrow> jsstring"

text \<open>A thrown value, by its message.\<close>

datatype exn = Thrown jsstring

definition TypeError_primitive :: exn where
  "TypeError_primitive = Thrown (js ''Cannot convert object to primitive value'')"

text \<open>
  \<^verbatim>\<open>String(v)\<close>. An object prints as \<^verbatim>\<open>[object Object]\<close> through the method it
  inherits, unless it carries a field \<^verbatim>\<open>toString\<close> of its own: a value out of JSON is
  never callable, \<^verbatim>\<open>valueOf\<close> hands back the object, so no method yields a primitive
  and the conversion throws a TypeError. An array prints its elements joined by commas,
  from left to right, null and undefined as nothing; an element that throws makes the
  array throw.
\<close>

fun ToString :: "runtime \<Rightarrow> jsval \<Rightarrow> exn + jsstring"
  and ArrayJoin :: "runtime \<Rightarrow> jsval list \<Rightarrow> exn + jsstring"
  and ElementString :: "runtime \<Rightarrow> jsval \<Rightarrow> exn + jsstring" where
  "ToString rt Undefined = Inr (js ''undefined'')"
| "ToString rt Null = Inr (js ''null'')"
| "ToString rt (Bool b) = Inr (if b then js ''true'' else js ''false'')"
| "ToString rt (Num n) = Inr (NumberToString rt n)"
| "ToString rt (Str s) = Inr s"
| "ToString rt (Arr xs) = ArrayJoin rt xs"
| "ToString rt (Obj fs) =
     (case map_of fs (js ''toString'') of
        None \<Rightarrow> Inr (js ''[object Object]'')
      | Some _ \<Rightarrow> Inl TypeError_primitive)"
| "ArrayJoin rt [] = Inr []"
| "ArrayJoin rt [x] = ElementString rt x"
| "ArrayJoin rt (x # y # ys) =
     (case ElementString rt x of
        Inl e \<Rightarrow> Inl e
      | Inr a \<Rightarrow>
          (case ArrayJoin rt (y # ys) of
             Inl e \<Rightarrow> Inl e
           | Inr b \<Rightarrow> Inr (a @ js '','' @ b)))"
| "ElementString rt Undefined = Inr []"
| "ElementString rt Null = Inr []"
| "ElementString rt v = ToString rt v"

text \<open>
  \<^verbatim>\<open>Number(v)\<close>. An array or an object is turned into a string first
  (\<^verbatim>\<open>valueOf\<close> hands back the object itself), and throws where that throws.
\<close>

fun ToNumber :: "runtime \<Rightarrow> jsval \<Rightarrow> exn + jsnum" where
  "ToNumber rt Undefined = Inr NaN"
| "ToNumber rt Null = Inr (Fin 0)"
| "ToNumber rt (Bool b) = Inr (if b then Fin 1 else Fin 0)"
| "ToNumber rt (Num n) = Inr n"
| "ToNumber rt (Str s) = Inr (StringToNumber rt s)"
| "ToNumber rt v =
     (case ToString rt v of Inl e \<Rightarrow> Inl e | Inr s \<Rightarrow> Inr (StringToNumber rt s))"

fun isFinite :: "jsnum \<Rightarrow> bool" where
  "isFinite (Fin q) = True"
| "isFinite _ = False"

text \<open>The order of the numbers that are not NaN.\<close>

fun num_le :: "jsnum \<Rightarrow> jsnum \<Rightarrow> bool" where
  "num_le NegInf _ = True"
| "num_le _ PosInf = True"
| "num_le (Fin a) (Fin b) = (a \<le> b)"
| "num_le _ _ = False"

definition Math_max :: "jsnum \<Rightarrow> jsnum \<Rightarrow> jsnum" where
  "Math_max a b = (if a = NaN \<or> b = NaN then NaN else if num_le a b then b else a)"

definition Math_min :: "jsnum \<Rightarrow> jsnum \<Rightarrow> jsnum" where
  "Math_min a b = (if a = NaN \<or> b = NaN then NaN else if num_le a b then a else b)"

text \<open>
  \<^verbatim>\<open>xs.slice(0, end)\<close>: the end is truncated towards zero, NaN counts as 0, a negative
  end counts from the back.
\<close>

definition trunc :: "rat \<Rightarrow> int" where
  "trunc q = (if 0 \<le> q then \<lfloor>q\<rfloor> else \<lceil>q\<rceil>)"

fun slice0 :: "jsnum \<Rightarrow> 'a list \<Rightarrow> 'a list" where
  "slice0 NaN xs = []"
| "slice0 PosInf xs = xs"
| "slice0 NegInf xs = []"
| "slice0 (Fin q) xs =
     (let k = trunc q
      in if k < 0 then take (nat (int (length xs) + k)) xs else take (nat k) xs)"

text \<open>\<^verbatim>\<open>s.includes(n)\<close>: n occurs in s as a contiguous run.\<close>

fun includes_js :: "'a list \<Rightarrow> 'a list \<Rightarrow> bool" where
  "includes_js [] n = (n = [])"
| "includes_js (c # cs) n = (prefix n (c # cs) \<or> includes_js cs n)"

text \<open>
  White space as both \<^verbatim>\<open>\s\<close> and \<^verbatim>\<open>trim()\<close> see it: the WhiteSpace and
  LineTerminator code points.
\<close>

definition is_space :: "jschar \<Rightarrow> bool" where
  "is_space c \<longleftrightarrow>
     c \<in> set [0x09, 0x0A, 0x0B, 0x0C, 0x0D, 0x20, 0xA0, 0x1680, 0x2028, 0x2029,
              0x202F, 0x205F, 0x3000, 0xFEFF]
     \<or> (0x2000 \<le> c \<and> c \<le> 0x200A)"

definition trim :: "jsstring \<Rightarrow> jsstring" where
  "trim s = rev (dropWhile is_space (rev (dropWhile is_space s)))"

text \<open>\<^verbatim>\<open>s.replace(/\s+/g, " ")\<close>: every maximal run of white space becomes one space.\<close>

function collapse :: "jsstring \<Rightarrow> jsstring" where
  "collapse [] = []"
| "collapse (c # cs) =
     (if is_space c then 0x20 # collapse (dropWhile is_space cs) else c # collapse cs)"
  by pat_completeness auto
termination
  by (relation "measure length") (auto simp: less_Suc_eq_le length_dropWhile_le)

text \<open>
  Property access on a value that came out of JSON. Only the names
  \<^verbatim>\<open>organic_results\<close>, \<^verbatim>\<open>link\<close> and \<^verbatim>\<open>title\<close> are read: an array, a number and a
  boolean have none of them; a string has the method \<^verbatim>\<open>link\<close>, which is a function and
  so, like undefined, not of type string.
\<close>

fun get_prop :: "jsval \<Rightarrow> jsstring \<Rightarrow> jsval" where
  "get_prop (Obj fs) k = (case map_of fs k of None \<Rightarrow> Undefined | Some v \<Rightarrow> v)"
| "get_prop _ k = Undefined"

subsection \<open>Configuration, requests, responses, the outside world\<close>

record env =
  env_SERPAPI_KEY :: "jsstring option"
  env_API_TOKEN :: "jsstring option"

text \<open>First listing: \<^verbatim>\<open>process.env.X || ""\<close>.\<close>

definition SERPAPI_KEY :: "env \<Rightarrow> jsstring" where
  "SERPAPI_KEY e = (case env_SERPAPI_KEY e of None \<Rightarrow> [] | Some k \<Rightarrow> k)"

definition API_TOKEN :: "env \<Rightarrow> jsstring" where
  "API_TOKEN e = (case env_API_TOKEN e of None \<Rightarrow> [] | Some k \<Rightarrow> k)"

text \<open>Second listing: the variable as it is; \<^verbatim>\<open>!X\<close> holds when it is unset or empty.\<close>

definition unset :: "jsstring option \<Rightarrow> bool" where
  "unset x = (case x of None \<Rightarrow> True | Some k \<Rightarrow> k = [])"

record request =
  authorization :: "jsstring option"
  query_q :: jsval
  query_num :: jsval
  body_query :: jsval
  body_num :: jsval

datatype 'a outcome = Rejects exn | Resolves 'a

record PageExtract =
  page_title :: jsstring
  h1 :: jsstring
  h2 :: "jsstring list"
  h3 :: "jsstring list"

record SearchResult =
  rank :: nat
  url :: jsstring
  serp_title :: jsval

text \<open>
  \<open>fetched_at\<close> is the time value of \<^verbatim>\<open>new Date()\<close> in milliseconds; the response
  carries its \<^verbatim>\<open>toISOString()\<close> rendering.
\<close>

record OutlineRecord =
  o_rank :: nat
  o_url :: jsstring
  o_serp_title :: jsval
  o_page_title :: jsstring
  o_h1 :: jsstring
  o_h2 :: "jsstring list"
  o_h3 :: "jsstring list"
  fetched_at :: int

datatype body =
    Error_body jsstring
  | Serp_failed "nat option" jsstring
  | Internal_error exn
  | Outline jsstring "OutlineRecord list" "jsstring option"

datatype response = Response (status: nat) (body: body)

record serp_call =
  call_q :: jsstring
  call_num :: jsnum
  call_api_key :: jsstring

record serp_response =
  serp_ok :: bool
  serp_status :: nat
  serp_text :: "jsstring outcome"
  serp_json :: "jsval outcome"

record page_response =
  page_ok :: bool
  page_text :: "jsstring outcome"

datatype tag = TITLE | H1 | H2 | H3

text \<open>
  A parsed document is known through \<^verbatim>\<open>$(tag)\<close> only: the texts of the elements with
  that tag, in document order.
\<close>

type_synonym document = "tag \<Rightarrow> jsstring list"

text \<open>
  The world answers the search call, the n-th page fetch of a request, the parser and
  the n-th reading of the clock. A fetch that fails, times out or is aborted rejects.
\<close>

record world =
  fetch_serp :: "serp_call \<Rightarrow> serp_response outcome"
  fetch_page :: "nat \<Rightarrow> jsstring \<Rightarrow> page_response outcome"
  cheerio_load :: "jsstring \<Rightarrow> document outcome"
  now :: "nat \<Rightarrow> int"

datatype effect = SerpFetch serp_call | ExtractHeadings jsstring | Sleep nat

subsection \<open>requireAuth\<close>

text \<open>
  The token a request presents: what follows \<^verbatim>\<open>Bearer \<close> in the Authorization header, and
  the empty string when the header is absent or does not start so. The first listing
  trims it, the second does not.
\<close>

definition bearer_token :: "request \<Rightarrow> jsstring" where
  "bearer_token req =
     (let auth = (case authorization req of None \<Rightarrow> [] | Some a \<Rightarrow> a)
      in if prefix (js ''Bearer '') auth then trim (drop 7 auth) else [])"

definition bearer_token' :: "request \<Rightarrow> jsstring" where
  "bearer_token' req =
     (let auth = (case authorization req of None \<Rightarrow> [] | Some a \<Rightarrow> a)
      in if prefix (js ''Bearer '') auth then drop 7 auth else [])"

definition Unauthorized :: response where
  "Unauthorized = Response 401 (Error_body (js ''Unauthorized''))"

text \<open>
  \<^verbatim>\<open>requireAuth\<close> either returns true (\<open>None\<close>) or sends a response and returns
  false (\<open>Some\<close> of that response).
\<close>

definition requireAuth :: "env \<Rightarrow> request \<Rightarrow> response option" where
  "requireAuth e req =
     (if API_TOKEN e = [] then None
      else if bearer_token req \<noteq> API_TOKEN e then Some Unauthorized
      else None)"

definition requireAuth' :: "env \<Rightarrow> request \<Rightarrow> response option" where
  "requireAuth' e req =
     (let token = bearer_token' req
      in if unset (env_API_TOKEN e) then None
         else if Some token \<noteq> env_API_TOKEN e then Some Unauthorized
         else None)"

subsection \<open>extractHeadings\<close>

definition empty_extract :: PageExtract where
  "empty_extract = \<lparr>page_title = [], h1 = [], h2 = [], h3 = []\<rparr>"

text \<open>\<^verbatim>\<open>$(tag).first().text() || ""\<close>\<close>

definition first_text :: "jsstring list \<Rightarrow> jsstring" where
  "first_text ts = (case ts of [] \<Rightarrow> [] | t # _ \<Rightarrow> t)"

text \<open>
  The \<^verbatim>\<open>each\<close> loop over the h2 or h3 elements: the text of each is collapsed and
  trimmed, and pushed when it is not empty.
\<close>

definition headings :: "jsstring list \<Rightarrow> jsstring list" where
  "headings ts = filter (\<lambda>t. t \<noteq> []) (map (\<lambda>t. trim (collapse t)) ts)"

text \<open>
  The body of the first listing's \<^verbatim>\<open>try\<close> block, for the n-th fetch of the request;
  \<open>Inl\<close> is an exception leaving it.
\<close>

definition extract_try :: "world \<Rightarrow> nat \<Rightarrow> jsstring \<Rightarrow> exn + PageExtract" where
  "extract_try w n u =
     (case fetch_page w n u of
        Rejects e \<Rightarrow> Inl e
      | Resolves resp \<Rightarrow>
          if \<not> page_ok resp then Inr empty_extract
          else (case page_text resp of
                  Rejects e \<Rightarrow> Inl e
                | Resolves html \<Rightarrow>
                    (case cheerio_load w html of
                       Rejects e \<Rightarrow> Inl e
                     | Resolves doc \<Rightarrow>
                         Inr \<lparr>page_title = take 200 (trim (first_text (doc TITLE))),
                              h1 = take 200 (trim (collapse (first_text (doc H1)))),
                              h2 = map (take 200) (take 20 (headings (doc H2))),
                              h3 = map (take 200) (take 40 (headings (doc H3)))\<rparr>)))"

text \<open>First listing: whatever the \<^verbatim>\<open>try\<close> block throws is caught.\<close>

definition extractHeadings :: "world \<Rightarrow> nat \<Rightarrow> jsstring \<Rightarrow> exn + PageExtract" where
  "extractHeadings w n u =
     (case extract_try w n u of Inl _ \<Rightarrow> Inr empty_extract | Inr p \<Rightarrow> Inr p)"

text \<open>Second listing: no \<^verbatim>\<open>try\<close>, and the h1 text is trimmed only.\<close>

definition extractHeadings' :: "world \<Rightarrow> nat \<Rightarrow> jsstring \<Rightarrow> exn + PageExtract" where
  "extractHeadings' w n u =
     (case fetch_page w n u of
        Rejects e \<Rightarrow> Inl e
      | Resolves resp \<Rightarrow>
          if \<not> page_ok resp then Inr empty_extract
          else (case page_text resp of
                  Rejects e \<Rightarrow> Inl e
                | Resolves html \<Rightarrow>
                    (case cheerio_load w html of
                       Rejects e \<Rightarrow> Inl e
                     | Resolves doc \<Rightarrow>
                         Inr \<lparr>page_title = take 200 (trim (first_text (doc TITLE))),
                              h1 = take 200 (trim (first_text (doc H1))),
                              h2 = map (take 200) (take 20 (headings (doc H2))),
                              h3 = map (take 200) (take 40 (headings (doc H3)))\<rparr>)))"

subsection \<open>Filtering and ranking the organic results\<close>

text \<open>\<^verbatim>\<open>r?.k\<close>\<close>

fun opt_prop :: "jsval \<Rightarrow> jsstring \<Rightarrow> jsval" where
  "opt_prop Undefined k = Undefined"
| "opt_prop Null k = Undefined"
| "opt_prop r k = get_prop r k"

text \<open>\<^verbatim>\<open>typeof r?.link === "string" && r.link.includes("note.com/")\<close>\<close>

definition keep :: "jsval \<Rightarrow> bool" where
  "keep r = (case opt_prop r (js ''link'') of
               Str s \<Rightarrow> includes_js s (js ''note.com/'')
             | _ \<Rightarrow> False)"

text \<open>The link of an entry that passed the filter; it is a string there.\<close>

definition link_of :: "jsval \<Rightarrow> jsstring" where
  "link_of r = (case get_prop r (js ''link'') of Str s \<Rightarrow> s | _ \<Rightarrow> [])"

definition to_item :: "nat \<times> jsval \<Rightarrow> SearchResult" where
  "to_item ir =
     (case ir of (i, r) \<Rightarrow>
        \<lparr>rank = i + 1,
         url = link_of r,
         serp_title = (case opt_prop r (js ''title'') of Str t \<Rightarrow> Str t | _ \<Rightarrow> Str [])\<rparr>)"

definition to_item' :: "nat \<times> jsval \<Rightarrow> SearchResult" where
  "to_item' ir =
     (case ir of (i, r) \<Rightarrow>
        \<lparr>rank = i + 1,
         url = link_of r,
         serp_title = or_js (get_prop r (js ''title'')) (Str [])\<rparr>)"

definition top_list :: "jsnum \<Rightarrow> jsval list \<Rightarrow> SearchResult list" where
  "top_list num organic = map to_item (enumerate 0 (slice0 num (filter keep organic)))"

definition top_list' :: "jsnum \<Rightarrow> jsval list \<Rightarrow> SearchResult list" where
  "top_list' num organic = map to_item' (enumerate 0 (slice0 num (filter keep organic)))"

text \<open>
  \<^verbatim>\<open>Array.isArray(serpJson.organic_results) ? serpJson.organic_results : []\<close>; reading a
  property of null or undefined throws a TypeError.
\<close>

definition organic_results :: "jsval \<Rightarrow> exn + jsval list" where
  "organic_results serpJson =
     (if serpJson = Null
      then Inl (Thrown (js ''Cannot read properties of null (reading 'organic_results')''))
      else if serpJson = Undefined
      then Inl (Thrown (js ''Cannot read properties of undefined (reading 'organic_results')''))
      else (case get_prop serpJson (js ''organic_results'') of
              Arr xs \<Rightarrow> Inr xs
            | _ \<Rightarrow> Inr []))"

subsection \<open>The handler\<close>

text \<open>
  The loop over \<^verbatim>\<open>top\<close>, with the extractor of the listing as a parameter: the n-th
  round calls the extractor, reads the clock and sleeps 500 ms. An exception of the
  extractor leaves the loop.
\<close>

fun extract_loop ::
  "(world \<Rightarrow> nat \<Rightarrow> jsstring \<Rightarrow> exn + PageExtract) \<Rightarrow> world \<Rightarrow> nat \<Rightarrow> SearchResult list
     \<Rightarrow> (exn + OutlineRecord list) \<times> effect list" where
  "extract_loop ex w n [] = (Inr [], [])"
| "extract_loop ex w n (item # items) =
     (case ex w n (url item) of
        Inl e \<Rightarrow> (Inl e, [ExtractHeadings (url item)])
      | Inr extracted \<Rightarrow>
          (let entry = \<lparr>o_rank = rank item, o_url = url item,
                         o_serp_title = serp_title item,
                         o_page_title = page_title extracted, o_h1 = h1 extracted,
                         o_h2 = h2 extracted, o_h3 = h3 extracted,
                         fetched_at = now w n\<rparr>;
               (rest, effs) = extract_loop ex w (Suc n) items
           in (case rest of Inl e \<Rightarrow> Inl e | Inr results \<Rightarrow> Inr (entry # results),
               ExtractHeadings (url item) # Sleep 500 # effs)))"

definition clamp_num :: "jsnum \<Rightarrow> jsnum" where
  "clamp_num numRaw =
     Math_min (Math_max (if isFinite numRaw then numRaw else Fin 10) (Fin 1)) (Fin 10)"

definition no_results_note :: jsstring where
  "no_results_note = js ''No note.com results found in top organic results.''"

text \<open>
  \<^verbatim>\<open>handleNoteTopOutline(req, res, query, numRaw)\<close>: the response sent and the calls
  made to the outside, in order.
\<close>

definition handleNoteTopOutline ::
  "env \<Rightarrow> world \<Rightarrow> request \<Rightarrow> jsstring \<Rightarrow> jsnum \<Rightarrow> response \<times> effect list" where
  "handleNoteTopOutline e w req query numRaw =
     (case requireAuth e req of
        Some sent \<Rightarrow> (sent, [])
      | None \<Rightarrow>
          if SERPAPI_KEY e = [] then (Response 500 (Error_body (js ''SERPAPI_KEY is missing'')), [])
          else
            let num = clamp_num numRaw in
            if query = [] then (Response 400 (Error_body (js ''query is required'')), [])
            else
              let serpQuery = query @ js '' site:note.com'';
                  call = \<lparr>call_q = serpQuery, call_num = num, call_api_key = SERPAPI_KEY e\<rparr>
              in (case fetch_serp w call of
                    Rejects ex \<Rightarrow> (Response 500 (Internal_error ex), [SerpFetch call])
                  | Resolves serpResp \<Rightarrow>
                      if \<not> serp_ok serpResp then
                        (let text = (case serp_text serpResp of Rejects _ \<Rightarrow> [] | Resolves t \<Rightarrow> t)
                         in (Response 502 (Serp_failed (Some (serp_status serpResp)) (take 800 text)),
                             [SerpFetch call]))
                      else
                        let serpJson = (case serp_json serpResp of
                                          Rejects _ \<Rightarrow> Obj [] | Resolves v \<Rightarrow> v)
                        in (case organic_results serpJson of
                              Inl ex \<Rightarrow> (Response 500 (Internal_error ex), [SerpFetch call])
                            | Inr organic \<Rightarrow>
                                let items = top_list num organic in
                                if items = [] then
                                  (Response 200 (Outline serpQuery [] (Some no_results_note)),
                                   [SerpFetch call])
                                else
                                  (case extract_loop extractHeadings w 0 items of
                                     (Inl ex, effs) \<Rightarrow>
                                       (Response 500 (Internal_error ex), SerpFetch call # effs)
                                   | (Inr results, effs) \<Rightarrow>
                                       (Response 200 (Outline serpQuery results None),
                                        SerpFetch call # effs)))))"

text \<open>
  The two routes of the first listing. Each converts the query and then the count
  before it calls the handler, outside the handler's \<^verbatim>\<open>try\<close>: \<open>Inl\<close> is a
  conversion that throws, so that the route's callback rejects, requireAuth is never
  called and the route sends nothing (what is answered then is up to Express).
\<close>

definition get_note_top_outline ::
  "runtime \<Rightarrow> env \<Rightarrow> world \<Rightarrow> request \<Rightarrow> exn + response \<times> effect list" where
  "get_note_top_outline rt e w req =
     (case ToString rt (or_js (query_q req) (Str [])) of
        Inl ex \<Rightarrow> Inl ex
      | Inr s \<Rightarrow>
          (let query = trim s
           in (case ToNumber rt (or_js (query_num req) (Num (Fin 10))) of
                 Inl ex \<Rightarrow> Inl ex
               | Inr num \<Rightarrow> Inr (handleNoteTopOutline e w req query num))))"

definition post_note_top_outline ::
  "runtime \<Rightarrow> env \<Rightarrow> world \<Rightarrow> request \<Rightarrow> exn + response \<times> effect list" where
  "post_note_top_outline rt e w req =
     (case ToString rt (or_js (body_query req) (Str [])) of
        Inl ex \<Rightarrow> Inl ex
      | Inr s \<Rightarrow>
          (let query = trim s
           in (case ToNumber rt (or_js (body_num req) (Num (Fin 10))) of
                 Inl ex \<Rightarrow> Inl ex
               | Inr num \<Rightarrow> Inr (handleNoteTopOutline e w req query num))))"

text \<open>
  The POST route of the second listing, with its handler inline. The conversions of the
  query and of the count stand inside the \<^verbatim>\<open>try\<close>, after requireAuth and the key
  check and before the query check: one that throws is answered 500 by the
  \<^verbatim>\<open>catch\<close>.
\<close>

definition clamp_num' :: "jsnum \<Rightarrow> jsnum" where
  "clamp_num' n = Math_min (Math_max n (Fin 1)) (Fin 10)"

definition post_note_top_outline' ::
  "runtime \<Rightarrow> env \<Rightarrow> world \<Rightarrow> request \<Rightarrow> response \<times> effect list" where
  "post_note_top_outline' rt e w req =
     (case requireAuth' e req of
        Some sent \<Rightarrow> (sent, [])
      | None \<Rightarrow>
          if unset (env_SERPAPI_KEY e)
          then (Response 500 (Error_body (js ''SERPAPI_KEY is missing'')), [])
          else
            (case ToString rt (or_js (body_query req) (Str [])) of
               Inl ex \<Rightarrow> (Response 500 (Internal_error ex), [])
             | Inr s \<Rightarrow>
            (case ToNumber rt (or_js (body_num req) (Num (Fin 10))) of
               Inl ex \<Rightarrow> (Response 500 (Internal_error ex), [])
             | Inr n \<Rightarrow>
            let query = trim s;
                num = clamp_num' n
            in
            if query = [] then (Response 400 (Error_body (js ''query is required'')), [])
            else
              let serpQuery = query @ js '' site:note.com'';
                  call = \<lparr>call_q = serpQuery, call_num = num, call_api_key = SERPAPI_KEY e\<rparr>
              in (case fetch_serp w call of
                    Rejects ex \<Rightarrow> (Response 500 (Internal_error ex), [SerpFetch call])
                  | Resolves serpResp \<Rightarrow>
                      if \<not> serp_ok serpResp then
                        (case serp_text serpResp of
                           Rejects ex \<Rightarrow> (Response 500 (Internal_error ex), [SerpFetch call])
                         | Resolves text \<Rightarrow>
                             (Response 502 (Serp_failed None (take 500 text)), [SerpFetch call]))
                      else
                        (case serp_json serpResp of
                           Rejects ex \<Rightarrow> (Response 500 (Internal_error ex), [SerpFetch call])
                         | Resolves serpJson \<Rightarrow>
                             (case organic_results serpJson of
                                Inl ex \<Rightarrow> (Response 500 (Internal_error ex), [SerpFetch call])
                              | Inr organic \<Rightarrow>
                                  (case extract_loop extractHeadings' w 0 (top_list' num organic) of
                                     (Inl ex, effs) \<Rightarrow>
                                       (Response 500 (Internal_error ex), SerpFetch call # effs)
                                   | (Inr results, effs) \<Rightarrow>
                                       (Response 200 (Outline serpQuery results None),
                                        SerpFetch call # effs))))))))"

subsection \<open>Properties and examples\<close>

text \<open>The documented caps of a PageExtract.\<close>

definition within_caps :: "PageExtract \<Rightarrow> bool" where
  "within_caps p \<longleftrightarrow>
     length (page_title p) \<le> 200 \<and> length (h1 p) \<le> 200 \<and>
     length (h2 p) \<le> 20 \<and> length (h3 p) \<le> 40 \<and>
     (\<forall>x \<in> set (h2 p). length x \<le> 200) \<and> (\<forall>x \<in> set (h3 p). length x \<le> 200)"

text \<open>
  The document that the n-th fetch of a URL leads to, when the fetch resolves with an ok
  status, the body is read and the parser returns.
\<close>

definition parsed_doc :: "world \<Rightarrow> nat \<Rightarrow> jsstring \<Rightarrow> document option" where
  "parsed_doc w n u =
     (case fetch_page w n u of
        Rejects _ \<Rightarrow> None
      | Resolves resp \<Rightarrow>
          if \<not> page_ok resp then None
          else (case page_text resp of
                  Rejects _ \<Rightarrow> None
                | Resolves html \<Rightarrow>
                    (case cheerio_load w html of Rejects _ \<Rightarrow> None | Resolves doc \<Rightarrow> Some doc)))"

text \<open>
  The values whose conversion to a string or to a number does not throw: those in which
  no object with a field \<^verbatim>\<open>toString\<close> of its own is to be printed. Every string, number,
  boolean, null and undefined is one.
\<close>

fun converts :: "jsval \<Rightarrow> bool" where
  "converts (Obj fs) = (map_of fs (js ''toString'') = None)"
| "converts (Arr xs) = list_all converts xs"
| "converts _ = True"


text \<open>
  The organic entries that the handler of the first listing hands to the filter, and
  \<open>None\<close> when it has answered before getting there: authentication, the search key,
  the query, the search call and the shape of its answer.
\<close>

definition organic_reaching_filter ::
  "env \<Rightarrow> world \<Rightarrow> request \<Rightarrow> jsstring \<Rightarrow> jsnum \<Rightarrow> jsval list option" where
  "organic_reaching_filter e w req query numRaw =
     (if requireAuth e req \<noteq> None \<or> SERPAPI_KEY e = [] \<or> query = [] then None
      else (case fetch_serp w \<lparr>call_q = query @ js '' site:note.com'',
                               call_num = clamp_num numRaw,
                               call_api_key = SERPAPI_KEY e\<rparr> of
              Rejects _ \<Rightarrow> None
            | Resolves serpResp \<Rightarrow>
                if \<not> serp_ok serpResp then None
                else (case organic_results (case serp_json serpResp of
                                              Rejects _ \<Rightarrow> Obj [] | Resolves v \<Rightarrow> v) of
                        Inl _ \<Rightarrow> None
                      | Inr organic \<Rightarrow> Some organic)))"

fun results_of :: "response \<Rightarrow> OutlineRecord list" where
  "results_of (Response _ (Outline _ results _)) = results"
| "results_of _ = []"

text \<open>
  The normal form of a text in the words of the specification: the maximal runs of
  characters that are not white space, joined by single spaces. \<open>blank\<close> is a text of
  white space only; \<open>trimmed\<close> is a text that neither starts nor ends with white space.
\<close>

function words_js :: "jsstring \<Rightarrow> jsstring list" where
  "words_js [] = []"
| "words_js (c # cs) =
     (if is_space c then words_js cs
      else (c # takeWhile (\<lambda>x. \<not> is_space x) cs) # words_js (dropWhile (\<lambda>x. \<not> is_space x) cs))"
  by pat_completeness auto
termination
  by (relation "measure length") (auto simp: less_Suc_eq_le length_dropWhile_le)

fun unwords_js :: "jsstring list \<Rightarrow> jsstring" where
  "unwords_js [] = []"
| "unwords_js [w] = w"
| "unwords_js (w # v # vs) = w @ 0x20 # unwords_js (v # vs)"

definition blank :: "jsstring \<Rightarrow> bool" where
  "blank s \<longleftrightarrow> (\<forall>c \<in> set s. is_space c)"

definition trimmed :: "jsstring \<Rightarrow> bool" where
  "trimmed s \<longleftrightarrow> s = [] \<or> (\<not> is_space (hd s) \<and> \<not> is_space (last s))"

text \<open>
  An example: the search answers with four organic entries, two of them on note.com;
  every page is fetched and parsed to the same small document; the clock advances one
  second per reading.
\<close>

definition example_doc :: document where
  "example_doc t =
     (case t of
        TITLE \<Rightarrow> [js ''  My  note '']
      | H1 \<Rightarrow> [js '' Main   heading '']
      | H2 \<Rightarrow> [js ''First   part'', js ''   '', js ''Second part'']
      | H3 \<Rightarrow> [js ''detail''])"

definition example_organic :: "jsval list" where
  "example_organic =
     [Obj [(js ''link'', Str (js ''https://note.com/a/n/1'')), (js ''title'', Str (js ''A''))],
      Obj [(js ''link'', Str (js ''https://example.com/x''))],
      Null,
      Obj [(js ''link'', Str (js ''https://note.com/b/n/2''))]]"

definition example_serp_json :: jsval where
  "example_serp_json = Obj [(js ''organic_results'', Arr example_organic)]"

definition example_world :: world where
  "example_world =
     \<lparr>fetch_serp = (\<lambda>c. Resolves \<lparr>serp_ok = True, serp_status = 200,
                                     serp_text = Resolves [],
                                     serp_json = Resolves example_serp_json\<rparr>),
      fetch_page = (\<lambda>n u. Resolves \<lparr>page_ok = True, page_text = Resolves (js ''<html>'')\<rparr>),
      cheerio_load = (\<lambda>h. Resolves example_doc),
      now = (\<lambda>n. 1000 * int n)\<rparr>"

definition example_extract :: PageExtract where
  "example_extract =
     \<lparr>page_title = js ''My  note'', h1 = js ''Main heading'',
      h2 = [js ''First part'', js ''Second part''], h3 = [js ''detail'']\<rparr>"

definition example_extract' :: PageExtract where
  "example_extract' =
     \<lparr>page_title = js ''My  note'', h1 = js ''Main   heading'',
      h2 = [js ''First part'', js ''Second part''], h3 = [js ''detail'']\<rparr>"

text \<open>
  Variations of the example: a search without note.com entries, page fetches that
  reject, and a clock that is set back between two readings.
\<close>

definition elsewhere_world :: world where
  "elsewhere_world =
     example_world\<lparr>fetch_serp := (\<lambda>c. Resolves
        \<lparr>serp_ok = True, serp_status = 200, serp_text = Resolves [],
         serp_json = Resolves (Obj [(js ''organic_results'',
                                     Arr [Obj [(js ''link'', Str (js ''https://example.com/x''))]])])\<rparr>)\<rparr>"

definition offline_world :: world where
  "offline_world = example_world\<lparr>fetch_page := (\<lambda>n u. Rejects (Thrown (js ''fetch failed'')))\<rparr>"

definition backward_world :: world where
  "backward_world = example_world\<lparr>now := (\<lambda>n. 1000 - 1000 * int n)\<rparr>"

text \<open>Environments and requests for the examples.\<close>

definition example_env :: env where
  "example_env = \<lparr>env_SERPAPI_KEY = Some (js ''serp-key''), env_API_TOKEN = Some (js ''s3cret'')\<rparr>"

definition open_env :: env where
  "open_env = \<lparr>env_SERPAPI_KEY = Some (js ''serp-key''), env_API_TOKEN = None\<rparr>"

definition keyless_env :: env where
  "keyless_env = \<lparr>env_SERPAPI_KEY = None, env_API_TOKEN = None\<rparr>"

definition example_request :: request where
  "example_request =
     \<lparr>authorization = Some (js ''Bearer s3cret''), query_q = Str (js ''productivity tips''), query_num = Undefined,
      body_query = Str (js ''productivity tips''), body_num = Num (Fin 3)\<rparr>"

definition wrong_request :: request where
  "wrong_request = example_request\<lparr>authorization := Some (js ''Bearer nope'')\<rparr>"

definition blank_request :: request where
  "blank_request =
     \<lparr>authorization = None, query_q = Str (js ''   ''), query_num = Undefined,
      body_query = Str (js ''   ''), body_num = Undefined\<rparr>"

definition zero_request :: request where
  "zero_request = example_request\<lparr>body_num := Num (Fin 0)\<rparr>"


definition throwing_request :: request where
  "throwing_request = wrong_request\<lparr>body_query := Obj [(js ''toString'', Num (Fin 1))]\<rparr>"

definition throwing_num_request :: request where
  "throwing_num_request = blank_request\<lparr>body_num := Obj [(js ''toString'', Num (Fin 1))]\<rparr>"

text \<open>
  No example parses a numeric string or prints a number; the runtime of the examples
  answers both arbitrarily.
\<close>

definition example_runtime :: runtime where
  "example_runtime = \<lparr>StringToNumber = (\<lambda>s. NaN), NumberToString = (\<lambda>n. [])\<rparr>"

section \<open>Verification\<close>

subsection \<open>Strings, numbers and the examples\<close>

lemma includes_js_iff: "includes_js s n \<longleftrightarrow> (\<exists>a b. s = a @ n @ b)"
proof (induction s)
  case Nil
  then show ?case by auto
next
  case (Cons c cs)
  show ?case
  proof
    assume "includes_js (c # cs) n"
    then consider "prefix n (c # cs)" | "includes_js cs n" by auto
    then show "\<exists>a b. c # cs = a @ n @ b"
    proof cases
      case 1
      then obtain b where "c # cs = n @ b" by (auto simp: prefix_def)
      then have "c # cs = [] @ n @ b" by simp
      then show ?thesis by blast
    next
      case 2
      with Cons.IH obtain a b where "cs = a @ n @ b" by blast
      then have "c # cs = (c # a) @ n @ b" by simp
      then show ?thesis by blast
    qed
  next
    assume "\<exists>a b. c # cs = a @ n @ b"
    then obtain a b where ab: "c # cs = a @ n @ b" by blast
    show "includes_js (c # cs) n"
    proof (cases a)
      case Nil
      with ab have "prefix n (c # cs)" by (simp add: prefix_def)
      then show ?thesis by simp
    next
      case (Cons x a')
      with ab have "cs = a' @ n @ b" by simp
      with Cons.IH have "includes_js cs n" by blast
      then show ?thesis by simp
    qed
  qed
qed

lemma slice0_take: "0 \<le> q \<Longrightarrow> slice0 (Fin q) xs = take (nat \<lfloor>q\<rfloor>) xs"
  by (simp add: trunc_def)

lemma floor_example: "\<lfloor>5/2::rat\<rfloor> = 2"
  by (rule floor_unique) simp_all

lemma clamp_num_Fin: "clamp_num (Fin q) = Fin (if q < 1 then 1 else if 10 < q then 10 else q)"
  by (simp add: clamp_num_def Math_max_def Math_min_def)



lemma default_num: "\<not> truthy raw \<Longrightarrow> ToNumber rt (or_js raw (Num (Fin 10))) = Inr (Fin 10)"
  by (simp add: or_js_def)


lemma converts_ToString:
  "converts v \<Longrightarrow> \<exists>s. ToString rt v = Inr s"
  "list_all converts vs \<Longrightarrow> \<exists>s. ArrayJoin rt vs = Inr s"
  "converts v \<Longrightarrow> \<exists>s. ElementString rt v = Inr s"
  by (induction rt v and rt vs and rt v rule: ToString_ArrayJoin_ElementString.induct) auto

lemma converts_ToNumber: "converts v \<Longrightarrow> \<exists>n. ToNumber rt v = Inr n"
  using converts_ToString(1) [of v rt] by (cases v) auto

lemma converts_or_js: "converts a \<Longrightarrow> converts b \<Longrightarrow> converts (or_js a b)"
  by (simp add: or_js_def)


lemma space_is_space: "is_space 0x20"
  by (simp add: is_space_def)

lemma trim_all_space: "\<forall>c \<in> set s. is_space c \<Longrightarrow> trim s = []"
  by (auto simp: trim_def dest: set_dropWhileD)

lemma collapse_word: "\<forall>x \<in> set w. \<not> is_space x \<Longrightarrow> collapse (w @ r) = w @ collapse r"
  by (induction w) simp_all

lemma collapse_lead:
  "collapse s = (if s \<noteq> [] \<and> is_space (hd s) then [0x20] else []) @ collapse (dropWhile is_space s)"
  by (cases s) simp_all

lemma collapse_lead_set: "set (collapse (dropWhile is_space s)) \<subseteq> set (collapse s)"
  by (cases s) auto

lemma words_props: "w \<in> set (words_js s) \<Longrightarrow> w \<noteq> [] \<and> (\<forall>x \<in> set w. \<not> is_space x)"
proof (induction s rule: words_js.induct)
  case 1
  then show ?case by simp
next
  case (2 c cs)
  show ?case
  proof (cases "is_space c")
    case True
    with 2 show ?thesis by simp
  next
    case False
    with "2.prems" consider
      (first) "w = c # takeWhile (\<lambda>x. \<not> is_space x) cs" |
      (later) "w \<in> set (words_js (dropWhile (\<lambda>x. \<not> is_space x) cs))"
      by auto
    then show ?thesis
    proof cases
      case first
      have "\<forall>x \<in> set (takeWhile (\<lambda>x. \<not> is_space x) cs). \<not> is_space x"
        using set_takeWhileD by fastforce
      with first False show ?thesis by simp
    next
      case later
      with False "2.IH"(2) show ?thesis by blast
    qed
  qed
qed

lemma collapse_words:
  "\<exists>post. blank post \<and>
     collapse s = (if words_js s \<noteq> [] \<and> s \<noteq> [] \<and> is_space (hd s) then [0x20] else [])
                  @ unwords_js (words_js s) @ post"
proof (induction s rule: words_js.induct)
  case 1
  show ?case by (simp add: blank_def)
next
  case (2 c cs)
  show ?case
  proof (cases "is_space c")
    case True
    with 2 obtain post where post: "blank post" and
      ih: "collapse cs = (if words_js cs \<noteq> [] \<and> cs \<noteq> [] \<and> is_space (hd cs) then [0x20] else [])
                  @ unwords_js (words_js cs) @ post" by blast
    have lead: "collapse cs = (if cs \<noteq> [] \<and> is_space (hd cs) then [0x20] else []) @ collapse (dropWhile is_space cs)"
      by (rule collapse_lead)
    show ?thesis
    proof (cases "words_js cs = []")
      case w: True
      with ih have "collapse cs = post" by simp
      with post collapse_lead_set [of cs] have "blank (collapse (dropWhile is_space cs))"
        by (auto simp: blank_def)
      then have "blank (0x20 # collapse (dropWhile is_space cs))"
        by (simp add: blank_def space_is_space)
      with True w show ?thesis by auto
    next
      case w: False
      with ih lead have "collapse (dropWhile is_space cs) = unwords_js (words_js cs) @ post"
        by (auto split: if_splits)
      with True w post show ?thesis by auto
    qed
  next
    case False
    let ?w = "c # takeWhile (\<lambda>x. \<not> is_space x) cs"
    let ?r = "dropWhile (\<lambda>x. \<not> is_space x) cs"
    from False 2 obtain post where post: "blank post" and
      ih: "collapse ?r = (if words_js ?r \<noteq> [] \<and> ?r \<noteq> [] \<and> is_space (hd ?r) then [0x20] else [])
                  @ unwords_js (words_js ?r) @ post" by blast
    have "\<forall>x \<in> set ?w. \<not> is_space x" using False by (auto dest: set_takeWhileD)
    then have "collapse (?w @ ?r) = ?w @ collapse ?r" by (rule collapse_word)
    then have c: "collapse (c # cs) = ?w @ collapse ?r" by simp
    have hd: "?r \<noteq> [] \<Longrightarrow> is_space (hd ?r)" using hd_dropWhile [of "\<lambda>x. \<not> is_space x" cs] by simp
    show ?thesis
    proof (cases "words_js ?r")
      case Nil
      with ih c have "collapse (c # cs) = ?w @ post" by simp
      with False Nil post show ?thesis by auto
    next
      case (Cons v vs)
      have "?r \<noteq> []"
      proof
        assume "?r = []"
        then have "words_js ?r = []" by (simp only: words_js.simps)
        with Cons show False by simp
      qed
      with hd Cons ih have "collapse ?r = 0x20 # unwords_js (v # vs) @ post" by simp
      with c have "collapse (c # cs) = ?w @ 0x20 # unwords_js (v # vs) @ post" by simp
      with False Cons post show ?thesis by auto
    qed
  qed
qed

lemma unwords_trimmed:
  "\<forall>w \<in> set ws. w \<noteq> [] \<and> (\<forall>x \<in> set w. \<not> is_space x) \<Longrightarrow> trimmed (unwords_js ws)"
proof (induction ws rule: unwords_js.induct)
  case 1
  then show ?case by (simp add: trimmed_def)
next
  case (2 w)
  then show ?case by (auto simp: trimmed_def)
next
  case (3 w v vs)
  then have "trimmed (unwords_js (v # vs))" by simp
  moreover have "unwords_js (v # vs) \<noteq> []" using 3(2) by (cases vs) auto
  ultimately show ?case using 3(2) by (auto simp: trimmed_def)
qed

lemma trim_frame:
  assumes "blank pre" "blank post" "trimmed t"
  shows "trim (pre @ t @ post) = t"
proof (cases "t = []")
  case True
  with assms show ?thesis by (auto simp: trim_def blank_def dest: set_dropWhileD)
next
  case False
  with assms have h: "\<not> is_space (hd t)" and l: "\<not> is_space (last t)" by (auto simp: trimmed_def)
  from False h have "dropWhile is_space (t @ post) = t @ post" by (cases t) auto
  with assms(1) have a: "dropWhile is_space (pre @ t @ post) = t @ post"
    by (simp add: blank_def)
  from False l have "dropWhile is_space (rev t) = rev t" by (cases t rule: rev_cases) auto
  moreover have "dropWhile is_space (rev post @ rev t) = dropWhile is_space (rev t)"
    by (rule dropWhile_append2) (use assms(2) in \<open>auto simp: blank_def\<close>)
  ultimately have "dropWhile is_space (rev post @ rev t) = rev t" by simp
  with a show ?thesis by (simp add: trim_def)
qed

lemma normal_form: "trim (collapse s) = unwords_js (words_js s)"
proof -
  obtain post where post: "blank post" and
    c: "collapse s = (if words_js s \<noteq> [] \<and> s \<noteq> [] \<and> is_space (hd s) then [0x20] else [])
                  @ unwords_js (words_js s) @ post"
    using collapse_words by blast
  have pre: "blank (if words_js s \<noteq> [] \<and> s \<noteq> [] \<and> is_space (hd s) then [0x20] else [])"
    by (simp add: blank_def space_is_space)
  have "trimmed (unwords_js (words_js s))"
    by (rule unwords_trimmed) (use words_props in blast)
  from trim_frame [OF pre post this] show ?thesis by (simp only: c)
qed

lemma trim_spec: "trimmed (trim s) \<and> (\<exists>a b. blank a \<and> blank b \<and> s = a @ trim s @ b)"
proof -
  let ?m = "dropWhile is_space s"
  have t: "trim s = rev (dropWhile is_space (rev ?m))" by (simp add: trim_def)
  have 1: "s = takeWhile is_space s @ ?m" by simp
  have 2: "rev ?m = takeWhile is_space (rev ?m) @ dropWhile is_space (rev ?m)" by simp
  then have "?m = trim s @ rev (takeWhile is_space (rev ?m))"
    by (metis rev_append rev_rev_ident t)
  with 1 have "s = takeWhile is_space s @ trim s @ rev (takeWhile is_space (rev ?m))" by simp
  moreover have "blank (takeWhile is_space s)" "blank (rev (takeWhile is_space (rev ?m)))"
    by (auto simp: blank_def dest: set_takeWhileD)
  moreover have "trimmed (trim s)"
  proof (cases "trim s = []")
    case True then show ?thesis by (simp add: trimmed_def)
  next
    case False
    then have ne: "dropWhile is_space (rev ?m) \<noteq> []" by (simp add: t)
    then have l: "\<not> is_space (last (trim s))"
      using hd_dropWhile [OF ne] by (simp add: t last_rev)
    from ne obtain pre x where px: "dropWhile is_space (rev ?m) = x # pre" by (cases "dropWhile is_space (rev ?m)") auto
    have "hd (trim s) = hd ?m"
    proof -
      from 2 px have "rev ?m = takeWhile is_space (rev ?m) @ x # pre" by simp
      then have "?m = rev (x # pre) @ rev (takeWhile is_space (rev ?m))" by (metis rev_append rev_rev_ident)
      moreover have "trim s = rev (x # pre)" by (simp add: t px)
      ultimately show ?thesis by (metis False hd_append2)
    qed
    moreover have "?m \<noteq> []" using ne by (auto dest: set_dropWhileD)
    ultimately have "\<not> is_space (hd (trim s))" using hd_dropWhile [of is_space s] by simp
    with l show ?thesis by (simp add: trimmed_def)
  qed
  ultimately show ?thesis by blast
qed

lemma extractHeadings_example:
  "extractHeadings example_world n u = Inr example_extract"
  by (simp add: extractHeadings_def extract_try_def example_world_def example_doc_def
      example_extract_def first_text_def headings_def trim_def is_space_def js_def)

lemma extractHeadings'_example:
  "extractHeadings' example_world n u = Inr example_extract'"
  by (simp add: extractHeadings'_def example_world_def example_doc_def
      example_extract'_def first_text_def headings_def trim_def is_space_def js_def)

lemma parsed_example: "parsed_doc example_world n u = Some example_doc"
  by (simp add: parsed_doc_def example_world_def)

lemma example_world_sel:
  "fetch_serp example_world c =
     Resolves \<lparr>serp_ok = True, serp_status = 200, serp_text = Resolves [],
               serp_json = Resolves example_serp_json\<rparr>"
  "now example_world n = 1000 * int n"
  by (simp_all add: example_world_def)

lemma organic_example: "organic_results example_serp_json = Inr example_organic"
  by (simp add: organic_results_def example_serp_json_def example_organic_def js_def)

lemma top_example:
  "top_list (Fin (5/2)) example_organic =
     [\<lparr>rank = 1, url = js ''https://note.com/a/n/1'', serp_title = Str (js ''A'')\<rparr>,
      \<lparr>rank = 2, url = js ''https://note.com/b/n/2'', serp_title = Str []\<rparr>]"
  by (simp add: top_list_def example_organic_def keep_def trunc_def to_item_def link_of_def js_def
      enumerate_eq_zip floor_example)


lemma reaching_example:
  "organic_reaching_filter open_env example_world example_request (js ''productivity tips'') (Fin 3)
     = Some example_organic"
  by (simp add: organic_reaching_filter_def example_request_def open_env_def requireAuth_def
      API_TOKEN_def SERPAPI_KEY_def js_def example_world_sel organic_example)

lemma backward_world_sel:
  "fetch_serp backward_world c =
     Resolves \<lparr>serp_ok = True, serp_status = 200, serp_text = Resolves [],
               serp_json = Resolves example_serp_json\<rparr>"
  "now backward_world n = 1000 - 1000 * int n"
  "extractHeadings backward_world n u = Inr example_extract"
  by (simp_all add: backward_world_def example_world_def extractHeadings_def extract_try_def
      example_doc_def example_extract_def first_text_def headings_def trim_def is_space_def js_def)

lemma offline_world_sel:
  "fetch_serp offline_world c =
     Resolves \<lparr>serp_ok = True, serp_status = 200, serp_text = Resolves [],
               serp_json = Resolves example_serp_json\<rparr>"
  "fetch_page offline_world n u = Rejects (Thrown (js ''fetch failed''))"
  by (simp_all add: offline_world_def example_world_def)

lemma wrong_token: "bearer_token wrong_request = js ''nope''" "bearer_token' wrong_request = js ''nope''"
  by (simp_all add: bearer_token_def bearer_token'_def wrong_request_def example_request_def js_def trim_def is_space_def)

subsection \<open>Authentication\<close>

lemma auth_gate:
  "((env_API_TOKEN e = None \<or> env_API_TOKEN e = Some []) \<longrightarrow>
      requireAuth e req = None \<and> requireAuth' e req = None) \<and>
   (env_API_TOKEN e = Some t \<and> t \<noteq> [] \<and> (authorization req = None \<or> bearer_token req \<noteq> t) \<longrightarrow>
      handleNoteTopOutline e w req query numRaw = (Response 401 (Error_body (js ''Unauthorized'')), []) \<and>
      (get_note_top_outline rt e w req = Inr res \<longrightarrow>
         res = (Response 401 (Error_body (js ''Unauthorized'')), [])) \<and>
      (post_note_top_outline rt e w req = Inr res \<longrightarrow>
         res = (Response 401 (Error_body (js ''Unauthorized'')), []))) \<and>
   (env_API_TOKEN e = Some t \<and> t \<noteq> [] \<and> (authorization req = None \<or> bearer_token' req \<noteq> t) \<longrightarrow>
      post_note_top_outline' rt e w req = (Response 401 (Error_body (js ''Unauthorized'')), []))"
proof (intro conjI impI)
  assume "env_API_TOKEN e = None \<or> env_API_TOKEN e = Some []"
  then show "requireAuth e req = None" "requireAuth' e req = None"
    by (auto simp: requireAuth_def requireAuth'_def API_TOKEN_def unset_def)
next
  assume a: "env_API_TOKEN e = Some t \<and> t \<noteq> [] \<and> (authorization req = None \<or> bearer_token req \<noteq> t)"
  then have "requireAuth e req = Some Unauthorized"
    by (auto simp: requireAuth_def API_TOKEN_def bearer_token_def js_def)
  then have h: "\<And>q k. handleNoteTopOutline e w req q k = (Response 401 (Error_body (js ''Unauthorized'')), [])"
    by (simp add: handleNoteTopOutline_def Unauthorized_def)
  show "handleNoteTopOutline e w req query numRaw = (Response 401 (Error_body (js ''Unauthorized'')), [])"
    by (rule h)
  { assume "get_note_top_outline rt e w req = Inr res"
    then show "res = (Response 401 (Error_body (js ''Unauthorized'')), [])"
      by (auto simp: get_note_top_outline_def h Let_def split: sum.splits) }
  { assume "post_note_top_outline rt e w req = Inr res"
    then show "res = (Response 401 (Error_body (js ''Unauthorized'')), [])"
      by (auto simp: post_note_top_outline_def h Let_def split: sum.splits) }
next
  assume a: "env_API_TOKEN e = Some t \<and> t \<noteq> [] \<and> (authorization req = None \<or> bearer_token' req \<noteq> t)"
  then have "requireAuth' e req = Some Unauthorized"
    by (auto simp: requireAuth'_def unset_def bearer_token'_def js_def)
  then show "post_note_top_outline' rt e w req = (Response 401 (Error_body (js ''Unauthorized'')), [])"
    by (simp add: post_note_top_outline'_def Unauthorized_def)
qed

lemma routes_reach_handler:
  "converts (query_q req) \<Longrightarrow> converts (query_num req) \<Longrightarrow>
     \<exists>query numRaw. get_note_top_outline rt e w req = Inr (handleNoteTopOutline e w req query numRaw)"
  "converts (body_query req) \<Longrightarrow> converts (body_num req) \<Longrightarrow>
     \<exists>query numRaw. post_note_top_outline rt e w req = Inr (handleNoteTopOutline e w req query numRaw)"
proof -
  have c: "\<exists>s n. ToString rt (or_js a (Str [])) = Inr s \<and> ToNumber rt (or_js b (Num (Fin 10))) = Inr n"
    if "converts a" "converts b" for a b
    using converts_ToString(1) [of "or_js a (Str [])" rt] converts_ToNumber [of "or_js b (Num (Fin 10))" rt]
      converts_or_js [of a "Str []"] converts_or_js [of b "Num (Fin 10)"] that
    by auto
  { assume "converts (query_q req)" "converts (query_num req)"
    with c obtain s n where "ToString rt (or_js (query_q req) (Str [])) = Inr s"
      "ToNumber rt (or_js (query_num req) (Num (Fin 10))) = Inr n" by blast
    then show "\<exists>query numRaw. get_note_top_outline rt e w req = Inr (handleNoteTopOutline e w req query numRaw)"
      by (auto simp: get_note_top_outline_def Let_def) }
  { assume "converts (body_query req)" "converts (body_num req)"
    with c obtain s n where "ToString rt (or_js (body_query req) (Str [])) = Inr s"
      "ToNumber rt (or_js (body_num req) (Num (Fin 10))) = Inr n" by blast
    then show "\<exists>query numRaw. post_note_top_outline rt e w req = Inr (handleNoteTopOutline e w req query numRaw)"
      by (auto simp: post_note_top_outline_def Let_def) }
qed

lemma auth_gate_example:
  "requireAuth open_env wrong_request = None \<and> requireAuth' open_env wrong_request = None \<and>
   post_note_top_outline example_runtime example_env example_world wrong_request =
     Inr (Response 401 (Error_body (js ''Unauthorized'')), []) \<and>
   post_note_top_outline' example_runtime example_env example_world wrong_request =
     (Response 401 (Error_body (js ''Unauthorized'')), [])"
proof -
  have a: "env_API_TOKEN open_env = None" by (simp add: open_env_def)
  have b: "env_API_TOKEN example_env = Some (js ''s3cret'')" by (simp add: example_env_def)
  have c: "js ''s3cret'' \<noteq> []" by (simp add: js_def)
  have d: "bearer_token wrong_request \<noteq> js ''s3cret''" "bearer_token' wrong_request \<noteq> js ''s3cret''"
    by (simp_all add: wrong_token js_def)
  have "converts (body_query wrong_request)" "converts (body_num wrong_request)"
    by (simp_all add: wrong_request_def example_request_def)
  then obtain query numRaw where
    r: "post_note_top_outline example_runtime example_env example_world wrong_request =
          Inr (handleNoteTopOutline example_env example_world wrong_request query numRaw)"
    using routes_reach_handler(2) by blast
  from auth_gate [where e = open_env and req = wrong_request] a
  have 1: "requireAuth open_env wrong_request = None \<and> requireAuth' open_env wrong_request = None"
    by blast
  from auth_gate [where e = example_env and t = "js ''s3cret''" and req = wrong_request
      and w = example_world and rt = example_runtime
      and res = "handleNoteTopOutline example_env example_world wrong_request query numRaw"]
    b c d r
  have 2: "handleNoteTopOutline example_env example_world wrong_request query numRaw =
        (Response 401 (Error_body (js ''Unauthorized'')), [])"
    and 3: "post_note_top_outline' example_runtime example_env example_world wrong_request =
        (Response 401 (Error_body (js ''Unauthorized'')), [])"
    by blast+
  from 1 2 3 r show ?thesis by simp
qed

text \<open>
  C8. requireAuth is the gate of the handler in both listings (\<open>auth_gate\<close>): with no
  token configured every request passes, and with a token a request whose bearer token
  is missing or differs is answered 401 {error: "Unauthorized"} with nothing called
  outside. The second listing calls requireAuth first. The routes of the first listing
  convert the query and the count before they call the handler and outside its
  \<^verbatim>\<open>try\<close>: for the POST body {"query": {"toString": 1}} with a wrong token the
  conversion throws a TypeError, requireAuth is never called and the route sends no 401,
  where the second listing answers 401.
\<close>

theorem first_listing_converts_before_auth:
  "API_TOKEN example_env = js ''s3cret'' \<and>
   bearer_token throwing_request = js ''nope'' \<and>
   post_note_top_outline example_runtime example_env example_world throwing_request =
     Inl (Thrown (js ''Cannot convert object to primitive value'')) \<and>
   post_note_top_outline' example_runtime example_env example_world throwing_request =
     (Response 401 (Error_body (js ''Unauthorized'')), [])"
proof (intro conjI)
  show "API_TOKEN example_env = js ''s3cret''"
    by (simp add: API_TOKEN_def example_env_def)
  show "bearer_token throwing_request = js ''nope''"
    using wrong_token(1) by (simp add: bearer_token_def throwing_request_def)
  show "post_note_top_outline example_runtime example_env example_world throwing_request =
     Inl (Thrown (js ''Cannot convert object to primitive value''))"
    by (simp add: post_note_top_outline_def throwing_request_def or_js_def
        TypeError_primitive_def)
  have "bearer_token' throwing_request = js ''nope''"
    using wrong_token(2) by (simp add: bearer_token'_def throwing_request_def)
  then have "requireAuth' example_env throwing_request = Some Unauthorized"
    by (simp add: requireAuth'_def unset_def example_env_def js_def)
  then show "post_note_top_outline' example_runtime example_env example_world throwing_request =
     (Response 401 (Error_body (js ''Unauthorized'')), [])"
    by (simp add: post_note_top_outline'_def Unauthorized_def)
qed

subsection \<open>The empty query\<close>

text \<open>
  C9 as stated fails: with the search key missing, a request with a white-space-only
  query is answered 500, not 400.
\<close>

theorem blank_query_without_key_counterexample:
  "post_note_top_outline example_runtime keyless_env example_world blank_request =
     Inr (Response 500 (Error_body (js ''SERPAPI_KEY is missing'')), [])"
  by (simp add: post_note_top_outline_def handleNoteTopOutline_def requireAuth_def
      API_TOKEN_def SERPAPI_KEY_def keyless_env_def blank_request_def or_js_def js_def)

text \<open>
  C9, amended. A request that passes authentication, with the search key configured,
  whose query is missing, empty or white space only, and whose count converts to a
  number (it holds no object with a field toString of its own), is answered
  400 {error: "query is required"} and nothing is called outside: by the handler, by
  the GET and POST routes of the first listing and by the POST route of the second.
\<close>

theorem blank_query_rejected:
  "(requireAuth e req = None \<and> SERPAPI_KEY e \<noteq> [] \<and> (\<forall>c \<in> set s. is_space c) \<longrightarrow>
      handleNoteTopOutline e w req [] numRaw =
        (Response 400 (Error_body (js ''query is required'')), []) \<and>
      ((query_q req = Str s \<or> \<not> truthy (query_q req)) \<and> converts (query_num req) \<longrightarrow>
         get_note_top_outline rt e w req =
           Inr (Response 400 (Error_body (js ''query is required'')), [])) \<and>
      ((body_query req = Str s \<or> \<not> truthy (body_query req)) \<and> converts (body_num req) \<longrightarrow>
         post_note_top_outline rt e w req =
           Inr (Response 400 (Error_body (js ''query is required'')), []))) \<and>
   (requireAuth' e req = None \<and> \<not> unset (env_SERPAPI_KEY e) \<and> (\<forall>c \<in> set s. is_space c) \<and>
    (body_query req = Str s \<or> \<not> truthy (body_query req)) \<and> converts (body_num req) \<longrightarrow>
      post_note_top_outline' rt e w req =
        (Response 400 (Error_body (js ''query is required'')), []))"
proof -
  have q: "\<exists>t. ToString rt (or_js raw (Str [])) = Inr t \<and> trim t = []"
    if "\<forall>c \<in> set s. is_space c" "raw = Str s \<or> \<not> truthy raw" for raw
  proof -
    from that(1) have "trim s = []" by (rule trim_all_space)
    with that(2) show ?thesis by (auto simp: or_js_def trim_def)
  qed
  have n: "\<exists>k. ToNumber rt (or_js raw (Num (Fin 10))) = Inr k" if "converts raw" for raw
    using converts_ToNumber [of "or_js raw (Num (Fin 10))" rt] converts_or_js [of raw "Num (Fin 10)"] that
    by simp
  show ?thesis
  proof (intro conjI impI)
    assume a: "requireAuth e req = None \<and> SERPAPI_KEY e \<noteq> [] \<and> (\<forall>c \<in> set s. is_space c)"
    then show "handleNoteTopOutline e w req [] numRaw =
        (Response 400 (Error_body (js ''query is required'')), [])"
      by (simp add: handleNoteTopOutline_def)
    then have h: "handleNoteTopOutline e w req [] k =
        (Response 400 (Error_body (js ''query is required'')), [])" for k
      using a by (simp add: handleNoteTopOutline_def)
    { assume b: "(query_q req = Str s \<or> \<not> truthy (query_q req)) \<and> converts (query_num req)"
      with a q [of "query_q req"] obtain t where
        "ToString rt (or_js (query_q req) (Str [])) = Inr t" "trim t = []" by blast
      moreover from b n [of "query_num req"] obtain k where
        "ToNumber rt (or_js (query_num req) (Num (Fin 10))) = Inr k" by blast
      ultimately show "get_note_top_outline rt e w req =
           Inr (Response 400 (Error_body (js ''query is required'')), [])"
        by (simp add: get_note_top_outline_def h) }
    { assume b: "(body_query req = Str s \<or> \<not> truthy (body_query req)) \<and> converts (body_num req)"
      with a q [of "body_query req"] obtain t where
        "ToString rt (or_js (body_query req) (Str [])) = Inr t" "trim t = []" by blast
      moreover from b n [of "body_num req"] obtain k where
        "ToNumber rt (or_js (body_num req) (Num (Fin 10))) = Inr k" by blast
      ultimately show "post_note_top_outline rt e w req =
           Inr (Response 400 (Error_body (js ''query is required'')), [])"
        by (simp add: post_note_top_outline_def h) }
  next
    assume a: "requireAuth' e req = None \<and> \<not> unset (env_SERPAPI_KEY e) \<and>
      (\<forall>c \<in> set s. is_space c) \<and> (body_query req = Str s \<or> \<not> truthy (body_query req)) \<and>
      converts (body_num req)"
    with q [of "body_query req"] obtain t where
      "ToString rt (or_js (body_query req) (Str [])) = Inr t" "trim t = []" by blast
    moreover from a n [of "body_num req"] obtain k where
      "ToNumber rt (or_js (body_num req) (Num (Fin 10))) = Inr k" by blast
    ultimately show "post_note_top_outline' rt e w req =
        (Response 400 (Error_body (js ''query is required'')), [])"
      using a by (simp add: post_note_top_outline'_def)
  qed
qed

theorem blank_query_rejected_witness:
  "requireAuth open_env blank_request = None \<and> SERPAPI_KEY open_env \<noteq> [] \<and>
   body_query blank_request = Str (js ''   '') \<and> converts (body_num blank_request) \<and>
   requireAuth' open_env blank_request = None \<and> \<not> unset (env_SERPAPI_KEY open_env) \<and>
   post_note_top_outline example_runtime open_env example_world blank_request =
     Inr (Response 400 (Error_body (js ''query is required'')), []) \<and>
   post_note_top_outline' example_runtime open_env example_world blank_request =
     (Response 400 (Error_body (js ''query is required'')), [])"
proof -
  have a: "requireAuth open_env blank_request = None" "requireAuth' open_env blank_request = None"
    by (simp_all add: requireAuth_def requireAuth'_def API_TOKEN_def unset_def open_env_def)
  have b: "SERPAPI_KEY open_env \<noteq> []" "\<not> unset (env_SERPAPI_KEY open_env)"
    by (simp_all add: SERPAPI_KEY_def unset_def open_env_def js_def)
  have c: "\<forall>c \<in> set (js ''   ''). is_space c" by (simp add: js_def is_space_def)
  have d: "body_query blank_request = Str (js ''   '')" "query_q blank_request = Str (js ''   '')"
    "converts (body_num blank_request)"
    by (simp_all add: blank_request_def)
  show ?thesis
    using blank_query_rejected [where e = open_env and req = blank_request and s = "js ''   ''"
          and w = example_world and rt = example_runtime] a b c d
    by blast
qed

text \<open>
  A count that does not convert is left out of the amended claim: with the blank query
  and the count {"toString": 1} the POST route of the first listing throws before the
  handler is called, and the second listing answers 500 from its \<^verbatim>\<open>catch\<close>.
\<close>

lemma blank_query_throwing_count:
  "post_note_top_outline example_runtime open_env example_world throwing_num_request =
     Inl (Thrown (js ''Cannot convert object to primitive value'')) \<and>
   post_note_top_outline' example_runtime open_env example_world throwing_num_request =
     (Response 500 (Internal_error (Thrown (js ''Cannot convert object to primitive value''))), [])"
  by (simp add: post_note_top_outline_def post_note_top_outline'_def throwing_num_request_def
      blank_request_def or_js_def TypeError_primitive_def requireAuth'_def unset_def
      open_env_def js_def)

subsection \<open>Filtering and ranking\<close>

lemma opt_prop_Str: "opt_prop r k = Str s \<longleftrightarrow> (\<exists>fs. r = Obj fs \<and> map_of fs k = Some (Str s))"
  by (cases r) (auto split: option.splits)

lemma keep_iff:
  "keep r \<longleftrightarrow> (\<exists>fs s a b. r = Obj fs \<and> map_of fs (js ''link'') = Some (Str s) \<and> s = a @ js ''note.com/'' @ b)"
proof
  assume "keep r"
  then obtain s where s: "opt_prop r (js ''link'') = Str s" "includes_js s (js ''note.com/'')"
    by (auto simp: keep_def split: jsval.splits)
  then show "\<exists>fs s a b. r = Obj fs \<and> map_of fs (js ''link'') = Some (Str s) \<and> s = a @ js ''note.com/'' @ b"
    unfolding opt_prop_Str includes_js_iff by blast
next
  assume "\<exists>fs s a b. r = Obj fs \<and> map_of fs (js ''link'') = Some (Str s) \<and> s = a @ js ''note.com/'' @ b"
  then obtain fs s a b where h: "r = Obj fs" "map_of fs (js ''link'') = Some (Str s)" "s = a @ js ''note.com/'' @ b"
    by blast
  then have "includes_js s (js ''note.com/'')" unfolding includes_js_iff by blast
  with h show "keep r" by (simp add: keep_def)
qed

lemma keep_link: "keep r \<Longrightarrow> get_prop r (js ''link'') = Str (link_of r)"
  by (cases r) (auto simp: keep_def link_of_def split: jsval.splits option.splits)

lemma length_top: "length (top_list num organic) = length (slice0 num (filter keep organic))"
  "length (top_list' num organic) = length (slice0 num (filter keep organic))"
  by (simp_all add: top_list_def top_list'_def)

lemma nth_top:
  assumes "i < length (slice0 num (filter keep organic))"
  shows "rank (top_list num organic ! i) = i + 1" "url (top_list num organic ! i) = link_of (slice0 num (filter keep organic) ! i)"
    "rank (top_list' num organic ! i) = i + 1" "url (top_list' num organic ! i) = link_of (slice0 num (filter keep organic) ! i)"
  using assms by (simp_all add: top_list_def top_list'_def to_item_def to_item'_def nth_enumerate_eq)

lemma rank_top: "map rank (top_list num organic) = [1..<Suc (length (top_list num organic))]"
proof (rule nth_equalityI)
  show "length (map rank (top_list num organic)) = length [1..<Suc (length (top_list num organic))]"
    by (simp del: upt_Suc)
next
  fix i assume "i < length (map rank (top_list num organic))"
  then have i: "i < length (slice0 num (filter keep organic))" by (simp add: length_top)
  then show "map rank (top_list num organic) ! i = [1..<Suc (length (top_list num organic))] ! i"
    using nth_top(1) [OF i] by (simp add: length_top del: upt_Suc)
qed

lemma top_Nil: "filter keep organic = [] \<Longrightarrow> top_list num organic = []"
  by (cases num) (simp_all add: top_list_def Let_def)

text \<open>
  C2. For a count in [1,10], both listings keep exactly the entries that are objects
  whose link is a string containing "note.com/", take the first \<open>\<lfloor>num\<rfloor>\<close> of them in
  their order (the first num for a whole num), give the i-th kept entry (from 0) the
  rank i + 1, and its link as url.
\<close>

theorem filter_and_rank:
  "(1 \<le> q \<and> q \<le> 10 \<longrightarrow>
      (let kept = take (nat \<lfloor>q\<rfloor>) (filter keep organic)
       in length (top_list (Fin q) organic) = length kept \<and>
          length (top_list' (Fin q) organic) = length kept \<and>
          (\<forall>i < length kept.
              rank (top_list (Fin q) organic ! i) = i + 1 \<and>
              Str (url (top_list (Fin q) organic ! i)) = get_prop (kept ! i) (js ''link'') \<and>
              rank (top_list' (Fin q) organic ! i) = i + 1 \<and>
              Str (url (top_list' (Fin q) organic ! i)) = get_prop (kept ! i) (js ''link'')))) \<and>
   (keep r \<longleftrightarrow>
      (\<exists>fs s a b. r = Obj fs \<and> map_of fs (js ''link'') = Some (Str s) \<and> s = a @ js ''note.com/'' @ b))"
proof (intro conjI impI)
  assume q: "1 \<le> q \<and> q \<le> 10"
  then have "0 \<le> q" by simp
  then have s: "slice0 (Fin q) (filter keep organic) = take (nat \<lfloor>q\<rfloor>) (filter keep organic)"
    by (rule slice0_take)
  have k: "keep (take (nat \<lfloor>q\<rfloor>) (filter keep organic) ! i)"
    if "i < length (take (nat \<lfloor>q\<rfloor>) (filter keep organic))" for i
  proof -
    from that have "take (nat \<lfloor>q\<rfloor>) (filter keep organic) ! i \<in> set (filter keep organic)"
      by (metis in_set_takeD nth_mem)
    then show ?thesis by simp
  qed
  show "let kept = take (nat \<lfloor>q\<rfloor>) (filter keep organic)
       in length (top_list (Fin q) organic) = length kept \<and>
          length (top_list' (Fin q) organic) = length kept \<and>
          (\<forall>i < length kept.
              rank (top_list (Fin q) organic ! i) = i + 1 \<and>
              Str (url (top_list (Fin q) organic ! i)) = get_prop (kept ! i) (js ''link'') \<and>
              rank (top_list' (Fin q) organic ! i) = i + 1 \<and>
              Str (url (top_list' (Fin q) organic ! i)) = get_prop (kept ! i) (js ''link''))"
    unfolding Let_def
  proof (intro conjI allI impI)
    show "length (top_list (Fin q) organic) = length (take (nat \<lfloor>q\<rfloor>) (filter keep organic))"
      by (simp only: length_top s)
    show "length (top_list' (Fin q) organic) = length (take (nat \<lfloor>q\<rfloor>) (filter keep organic))"
      by (simp only: length_top s)
  next
    fix i assume i: "i < length (take (nat \<lfloor>q\<rfloor>) (filter keep organic))"
    then have i': "i < length (slice0 (Fin q) (filter keep organic))" by (simp only: s)
    show "rank (top_list (Fin q) organic ! i) = i + 1" by (rule nth_top(1)[OF i'])
    show "rank (top_list' (Fin q) organic ! i) = i + 1" by (rule nth_top(3)[OF i'])
    show "Str (url (top_list (Fin q) organic ! i)) = get_prop (take (nat \<lfloor>q\<rfloor>) (filter keep organic) ! i) (js ''link'')"
      using nth_top(2)[OF i'] keep_link[OF k[OF i]] by (simp only: s)
    show "Str (url (top_list' (Fin q) organic ! i)) = get_prop (take (nat \<lfloor>q\<rfloor>) (filter keep organic) ! i) (js ''link'')"
      using nth_top(4)[OF i'] keep_link[OF k[OF i]] by (simp only: s)
  qed
next
  show "keep r \<longleftrightarrow>
      (\<exists>fs s a b. r = Obj fs \<and> map_of fs (js ''link'') = Some (Str s) \<and> s = a @ js ''note.com/'' @ b)"
    by (rule keep_iff)
qed

theorem filter_and_rank_witness:
  "(1::rat) \<le> 5/2 \<and> (5/2::rat) \<le> 10 \<and>
   length (top_list (Fin (5/2)) example_organic) = length (take (nat \<lfloor>5/2::rat\<rfloor>) (filter keep example_organic)) \<and>
   map rank (top_list (Fin (5/2)) example_organic) = [1, 2]"
proof -
  have a: "(1::rat) \<le> 5/2 \<and> (5/2::rat) \<le> 10" by simp
  have b: "map rank (top_list (Fin (5/2)) example_organic) = [1, 2]" by (simp add: top_example)
  show ?thesis
    using filter_and_rank [where q = "5/2" and organic = example_organic] a b
    by (simp add: Let_def)
qed

subsection \<open>No entry survives the filter\<close>

lemma no_results_note_nonempty: "no_results_note \<noteq> []"
  by (simp add: no_results_note_def js_def)

lemma short_circuit:
  "organic_reaching_filter e w req query numRaw = Some organic \<Longrightarrow> filter keep organic = [] \<Longrightarrow>
   handleNoteTopOutline e w req query numRaw =
     (Response 200 (Outline (query @ js '' site:note.com'') [] (Some no_results_note)),
      [SerpFetch \<lparr>call_q = query @ js '' site:note.com'', call_num = clamp_num numRaw,
                  call_api_key = SERPAPI_KEY e\<rparr>])"
  by (auto simp: organic_reaching_filter_def handleNoteTopOutline_def Let_def top_Nil
      split: if_splits outcome.splits sum.splits option.splits)

text \<open>
  C4. The first listing answers 200 with no results and the note, after the search
  call alone (\<open>short_circuit\<close>, \<open>no_results_note_nonempty\<close>). The second listing
  has no such branch: for a search without note.com entries it answers 200 with no
  results and no note field.
\<close>

theorem second_listing_no_note:
  "post_note_top_outline' example_runtime open_env elsewhere_world example_request =
     (Response 200 (Outline (js ''productivity tips site:note.com'') [] None),
      [SerpFetch \<lparr>call_q = js ''productivity tips site:note.com'', call_num = Fin 3,
                  call_api_key = js ''serp-key''\<rparr>])"
  by (simp add: post_note_top_outline'_def example_request_def open_env_def requireAuth'_def
      unset_def SERPAPI_KEY_def clamp_num'_def Math_max_def Math_min_def or_js_def trim_def
      is_space_def js_def elsewhere_world_def example_world_def
      organic_results_def top_list'_def keep_def trunc_def Let_def)

subsection \<open>The success response\<close>

lemma extract_loop_results:
  "extract_loop ex w n items = (Inr results, effs) \<Longrightarrow>
     length results = length items \<and> map o_rank results = map rank items \<and>
     map fetched_at results = map (now w) [n..<n + length items]"
proof (induction items arbitrary: n results effs)
  case Nil
  then show ?case by simp
next
  case (Cons item items)
  from Cons.prems obtain p rest effs' where
    p: "ex w n (url item) = Inr p" and
    rest: "extract_loop ex w (Suc n) items = (Inr rest, effs')" and
    res: "results = \<lparr>o_rank = rank item, o_url = url item, o_serp_title = serp_title item,
                      o_page_title = page_title p, o_h1 = h1 p, o_h2 = h2 p, o_h3 = h3 p,
                      fetched_at = now w n\<rparr> # rest"
    by (auto simp: Let_def split: sum.splits prod.splits)
  from Cons.IH [OF rest] have ih: "length rest = length items" "map o_rank rest = map rank items"
    "map fetched_at rest = map (now w) [Suc n..<Suc n + length items]" by simp_all
  have "[n..<Suc (n + length items)] = n # [Suc n..<Suc (n + length items)]"
    by (rule upt_conv_Cons) simp
  with res ih show ?case by simp
qed

lemma extract_loop_total:
  "\<forall>k u. \<exists>p. ex w k u = Inr p \<Longrightarrow> \<exists>results effs. extract_loop ex w n items = (Inr results, effs)"
proof (induction items arbitrary: n)
  case Nil
  then show ?case by simp
next
  case (Cons item items)
  from Cons.prems obtain p where p: "ex w n (url item) = Inr p" by blast
  from Cons.IH [OF Cons.prems] obtain rest effs where
    "extract_loop ex w (Suc n) items = (Inr rest, effs)" by blast
  with p show ?case by (simp add: Let_def)
qed

lemma extractHeadings_never_raises: "\<exists>p. extractHeadings w n u = Inr p"
  by (simp add: extractHeadings_def split: sum.splits)

lemma extractHeadings_degrades:
  "parsed_doc w n u = None \<Longrightarrow> extractHeadings w n u = Inr empty_extract"
  by (auto simp: parsed_doc_def extractHeadings_def extract_try_def
      split: outcome.splits if_splits sum.splits)

lemma sorted_clock:
  "\<forall>i j. i \<le> j \<longrightarrow> now w i \<le> now w j \<Longrightarrow> sorted (map (now w) [0..<N])"
  by (simp add: sorted_iff_nth_mono)

text \<open>
  C5 as stated fails where the clock is set back during the request: fetched_at is the
  wall clock, read once per entry.
\<close>

theorem backward_clock_counterexample:
  "map fetched_at (results_of (fst (handleNoteTopOutline open_env backward_world example_request
      (js ''productivity tips'') (Fin 3)))) = [1000, 0] \<and>
   \<not> sorted (map fetched_at (results_of (fst (handleNoteTopOutline open_env backward_world
      example_request (js ''productivity tips'') (Fin 3)))))"
  by (simp add: handleNoteTopOutline_def example_request_def open_env_def requireAuth_def
      API_TOKEN_def SERPAPI_KEY_def clamp_num_Fin js_def backward_world_sel
      organic_example example_organic_def top_list_def keep_def trunc_def to_item_def
      link_of_def enumerate_eq_zip Let_def)

text \<open>
  C5, amended. When N \<ge> 1 entries are left after filter and cut, the first listing
  answers 200 with the query followed by " site:note.com" and N results, with ranks
  1..N in order; the fetched_at of the i-th result is the i-th reading of the clock,
  so the timestamps do not decrease as long as the clock does not.
\<close>

theorem success_response:
  "organic_reaching_filter e w req query numRaw = Some organic \<and>
   top_list (clamp_num numRaw) organic \<noteq> [] \<longrightarrow>
     (\<exists>results effs.
        handleNoteTopOutline e w req query numRaw =
          (Response 200 (Outline (query @ js '' site:note.com'') results None), effs) \<and>
        length results = length (top_list (clamp_num numRaw) organic) \<and>
        map o_rank results = [1..<Suc (length results)] \<and>
        map fetched_at results = map (now w) [0..<length results] \<and>
        ((\<forall>i j. i \<le> j \<longrightarrow> now w i \<le> now w j) \<longrightarrow> sorted (map fetched_at results)))"
proof
  assume a: "organic_reaching_filter e w req query numRaw = Some organic \<and>
   top_list (clamp_num numRaw) organic \<noteq> []"
  let ?items = "top_list (clamp_num numRaw) organic"
  obtain results effs where l: "extract_loop extractHeadings w 0 ?items = (Inr results, effs)"
    using extract_loop_total [of extractHeadings w 0 ?items] extractHeadings_never_raises
    by blast
  from extract_loop_results [OF l] have r: "length results = length ?items"
    "map o_rank results = map rank ?items" "map fetched_at results = map (now w) [0..<length ?items]"
    by simp_all
  from a l have h: "handleNoteTopOutline e w req query numRaw =
      (Response 200 (Outline (query @ js '' site:note.com'') results None),
       SerpFetch \<lparr>call_q = query @ js '' site:note.com'', call_num = clamp_num numRaw,
                  call_api_key = SERPAPI_KEY e\<rparr> # effs)"
    by (auto simp: organic_reaching_filter_def handleNoteTopOutline_def Let_def
        split: if_splits outcome.splits sum.splits option.splits)
  have s: "(\<forall>i j. i \<le> j \<longrightarrow> now w i \<le> now w j) \<longrightarrow> sorted (map fetched_at results)"
    using sorted_clock [of w "length ?items"] r(3) by simp
  from h r s rank_top [of "clamp_num numRaw" organic]
  show "\<exists>results effs.
        handleNoteTopOutline e w req query numRaw =
          (Response 200 (Outline (query @ js '' site:note.com'') results None), effs) \<and>
        length results = length (top_list (clamp_num numRaw) organic) \<and>
        map o_rank results = [1..<Suc (length results)] \<and>
        map fetched_at results = map (now w) [0..<length results] \<and>
        ((\<forall>i j. i \<le> j \<longrightarrow> now w i \<le> now w j) \<longrightarrow> sorted (map fetched_at results))"
    by simp
qed

theorem success_response_witness:
  "organic_reaching_filter open_env example_world example_request (js ''productivity tips'') (Fin 3)
     = Some example_organic \<and>
   top_list (clamp_num (Fin 3)) example_organic \<noteq> [] \<and>
   (\<exists>results effs.
      handleNoteTopOutline open_env example_world example_request (js ''productivity tips'') (Fin 3) =
        (Response 200 (Outline (js ''productivity tips'' @ js '' site:note.com'') results None), effs) \<and>
      length results = length (top_list (clamp_num (Fin 3)) example_organic) \<and>
      map o_rank results = [1..<Suc (length results)] \<and>
      map fetched_at results = map (now example_world) [0..<length results] \<and>
      sorted (map fetched_at results))"
proof -
  have a: "top_list (clamp_num (Fin 3)) example_organic \<noteq> []"
    by (simp add: clamp_num_Fin top_list_def example_organic_def keep_def trunc_def js_def enumerate_eq_zip)
  have b: "\<forall>i j. i \<le> j \<longrightarrow> now example_world i \<le> now example_world j"
    by (simp add: example_world_sel)
  show ?thesis
    using success_response [where e = open_env and w = example_world and req = example_request
          and query = "js ''productivity tips''" and numRaw = "Fin 3" and organic = example_organic]
      reaching_example a b
    by blast
qed

subsection \<open>The result count\<close>












text \<open>
  A POST count of 0 is left out of the amended claim: \<^verbatim>\<open>0 || 10\<close> replaces it by the
  default before the handler sees it, and the search is called with 10, whereas the
  handler turns the number 0 into 1.
\<close>

lemma post_zero_becomes_ten:
  "post_note_top_outline example_runtime open_env example_world zero_request =
     Inr (handleNoteTopOutline open_env example_world zero_request
            (js ''productivity tips'') (Fin 10)) \<and>
   clamp_num (Fin 10) = Fin 10 \<and> clamp_num (Fin 0) = Fin 1"
  by (simp add: post_note_top_outline_def zero_request_def example_request_def or_js_def
      trim_def is_space_def js_def clamp_num_Fin)

subsection \<open>The extractor on failure\<close>

lemma first_listing_offline:
  "handleNoteTopOutline open_env offline_world example_request (js ''productivity tips'') (Fin 3) =
     (Response 200 (Outline (js ''productivity tips site:note.com'')
        [\<lparr>o_rank = 1, o_url = js ''https://note.com/a/n/1'', o_serp_title = Str (js ''A''),
          o_page_title = [], o_h1 = [], o_h2 = [], o_h3 = [], fetched_at = 0\<rparr>,
         \<lparr>o_rank = 2, o_url = js ''https://note.com/b/n/2'', o_serp_title = Str [],
          o_page_title = [], o_h1 = [], o_h2 = [], o_h3 = [], fetched_at = 1000\<rparr>]
        None),
      [SerpFetch \<lparr>call_q = js ''productivity tips site:note.com'', call_num = Fin 3,
                  call_api_key = js ''serp-key''\<rparr>,
       ExtractHeadings (js ''https://note.com/a/n/1''), Sleep 500,
       ExtractHeadings (js ''https://note.com/b/n/2''), Sleep 500])"
proof -
  have e: "extractHeadings offline_world n u = Inr empty_extract" for n u
    by (simp add: extractHeadings_def extract_try_def offline_world_sel)
  have n: "now offline_world n = 1000 * int n" for n
    by (simp add: offline_world_def example_world_def)
  show ?thesis
    by (simp add: handleNoteTopOutline_def example_request_def open_env_def requireAuth_def
      API_TOKEN_def SERPAPI_KEY_def clamp_num_Fin js_def offline_world_sel n
      organic_example example_organic_def top_list_def keep_def trunc_def to_item_def
      link_of_def enumerate_eq_zip e empty_extract_def Let_def)
qed

text \<open>
  C1. The extractor of the first listing never raises: it always returns a
  PageExtract (\<open>extractHeadings_never_raises\<close>), the all-empty one whenever the page
  was not fetched and parsed (\<open>extractHeadings_degrades\<close>), and the batch goes on
  (\<open>first_listing_offline\<close>). The extractor of the second listing has no try/catch: a
  fetch that rejects makes it raise, and the route answers 500 after the first entry.
\<close>

theorem second_listing_fetch_failure_aborts:
  "extractHeadings' offline_world 0 (js ''https://note.com/a/n/1'') = Inl (Thrown (js ''fetch failed'')) \<and>
   post_note_top_outline' example_runtime open_env offline_world example_request =
     (Response 500 (Internal_error (Thrown (js ''fetch failed''))),
      [SerpFetch \<lparr>call_q = js ''productivity tips site:note.com'', call_num = Fin 3,
                  call_api_key = js ''serp-key''\<rparr>,
       ExtractHeadings (js ''https://note.com/a/n/1'')])"
proof
  show "extractHeadings' offline_world 0 (js ''https://note.com/a/n/1'') = Inl (Thrown (js ''fetch failed''))"
    by (simp add: extractHeadings'_def offline_world_sel)
  have e: "extractHeadings' offline_world n u = Inl (Thrown (js ''fetch failed''))" for n u
    by (simp add: extractHeadings'_def offline_world_sel)
  show "post_note_top_outline' example_runtime open_env offline_world example_request =
     (Response 500 (Internal_error (Thrown (js ''fetch failed''))),
      [SerpFetch \<lparr>call_q = js ''productivity tips site:note.com'', call_num = Fin 3,
                  call_api_key = js ''serp-key''\<rparr>,
       ExtractHeadings (js ''https://note.com/a/n/1'')])"
    by (simp add: post_note_top_outline'_def example_request_def open_env_def requireAuth'_def
      unset_def SERPAPI_KEY_def clamp_num'_def Math_max_def Math_min_def or_js_def trim_def
      is_space_def js_def offline_world_sel organic_example example_organic_def
      top_list'_def to_item'_def link_of_def enumerate_eq_zip keep_def trunc_def Let_def e)
qed

subsection \<open>The caps of a PageExtract\<close>

lemma within_caps_empty: "within_caps empty_extract"
  by (simp add: within_caps_def empty_extract_def)

lemma extract_try_caps: "extract_try w n u = Inr p \<Longrightarrow> within_caps p"
  by (auto simp: extract_try_def within_caps_def empty_extract_def
      split: outcome.splits if_splits)

text \<open>
  C6. Whatever page the extractor returns, in either listing, is within the caps:
  page_title and h1 have at most 200 code units, h2 at most 20 items, h3 at most 40
  items, and every item at most 200 code units.
\<close>

theorem extractHeadings_within_caps:
  "(extractHeadings w n u = Inr p \<longrightarrow> within_caps p) \<and>
   (extractHeadings' w n u = Inr p \<longrightarrow> within_caps p)"
proof
  show "extractHeadings w n u = Inr p \<longrightarrow> within_caps p"
    by (auto simp: extractHeadings_def within_caps_empty dest: extract_try_caps
        split: sum.splits)
  show "extractHeadings' w n u = Inr p \<longrightarrow> within_caps p"
    by (auto simp: extractHeadings'_def within_caps_def empty_extract_def
        split: outcome.splits if_splits)
qed

theorem extractHeadings_within_caps_witness:
  "extractHeadings example_world 0 (js ''https://note.com/a/n/1'') = Inr example_extract \<and>
   within_caps example_extract"
  using extractHeadings_within_caps [of example_world 0 "js ''https://note.com/a/n/1''" example_extract]
    extractHeadings_example [of 0 "js ''https://note.com/a/n/1''"]
  by blast

subsection \<open>Empty headings are dropped\<close>

lemma headings_nonempty: "[] \<notin> set (headings ts)"
  by (simp add: headings_def)

lemma extract_try_nonempty: "extract_try w n u = Inr p \<Longrightarrow> [] \<notin> set (h2 p) \<and> [] \<notin> set (h3 p)"
  by (auto simp: extract_try_def empty_extract_def headings_nonempty dest!: in_set_takeD
      split: outcome.splits if_splits)

lemma length_headings: "length (headings ts) = length (filter (\<lambda>t. trim (collapse t) \<noteq> []) ts)"
  by (induction ts) (simp_all add: headings_def)

lemma parsed_extractHeadings:
  "parsed_doc w n u = Some doc \<Longrightarrow>
   extractHeadings w n u =
     Inr \<lparr>page_title = take 200 (trim (first_text (doc TITLE))),
          h1 = take 200 (trim (collapse (first_text (doc H1)))),
          h2 = map (take 200) (take 20 (headings (doc H2))),
          h3 = map (take 200) (take 40 (headings (doc H3)))\<rparr>"
  by (auto simp: parsed_doc_def extractHeadings_def extract_try_def split: outcome.splits if_splits)

lemma parsed_extractHeadings':
  "parsed_doc w n u = Some doc \<Longrightarrow>
   extractHeadings' w n u =
     Inr \<lparr>page_title = take 200 (trim (first_text (doc TITLE))),
          h1 = take 200 (trim (first_text (doc H1))),
          h2 = map (take 200) (take 20 (headings (doc H2))),
          h3 = map (take 200) (take 40 (headings (doc H3)))\<rparr>"
  by (auto simp: parsed_doc_def extractHeadings'_def split: outcome.splits if_splits)

text \<open>
  C10. In a PageExtract returned by either listing, no item of h2 or h3 is the empty
  string. When the page was fetched and parsed, the number of h2 (h3) items is the number
  of h2 (h3) elements whose collapsed and trimmed text is not empty, capped at 20 (40):
  the empty ones are dropped before the cap.
\<close>

theorem headings_nonempty_in_extract:
  "(extractHeadings w n u = Inr p \<longrightarrow> [] \<notin> set (h2 p) \<and> [] \<notin> set (h3 p)) \<and>
   (extractHeadings' w n u = Inr p \<longrightarrow> [] \<notin> set (h2 p) \<and> [] \<notin> set (h3 p)) \<and>
   (parsed_doc w n u = Some doc \<and> (extractHeadings w n u = Inr p \<or> extractHeadings' w n u = Inr p) \<longrightarrow>
      length (h2 p) = min 20 (length (filter (\<lambda>t. trim (collapse t) \<noteq> []) (doc H2))) \<and>
      length (h3 p) = min 40 (length (filter (\<lambda>t. trim (collapse t) \<noteq> []) (doc H3))))"
proof (intro conjI impI)
  assume "extractHeadings w n u = Inr p"
  then show "[] \<notin> set (h2 p)" "[] \<notin> set (h3 p)"
    by (auto simp: extractHeadings_def empty_extract_def dest: extract_try_nonempty split: sum.splits)
next
  assume "extractHeadings' w n u = Inr p"
  then show "[] \<notin> set (h2 p)" "[] \<notin> set (h3 p)"
    by (auto simp: extractHeadings'_def empty_extract_def headings_nonempty dest!: in_set_takeD
      split: outcome.splits if_splits)
next
  assume a: "parsed_doc w n u = Some doc \<and> (extractHeadings w n u = Inr p \<or> extractHeadings' w n u = Inr p)"
  then show "length (h2 p) = min 20 (length (filter (\<lambda>t. trim (collapse t) \<noteq> []) (doc H2)))"
    using parsed_extractHeadings[of w n u doc] parsed_extractHeadings'[of w n u doc]
    by (auto simp: length_headings)
  from a show "length (h3 p) = min 40 (length (filter (\<lambda>t. trim (collapse t) \<noteq> []) (doc H3)))"
    using parsed_extractHeadings[of w n u doc] parsed_extractHeadings'[of w n u doc]
    by (auto simp: length_headings)
qed

theorem headings_nonempty_in_extract_witness:
  "extractHeadings example_world 0 (js ''https://note.com/a/n/1'') = Inr example_extract \<and>
   [] \<notin> set (h2 example_extract) \<and> [] \<notin> set (h3 example_extract) \<and>
   extractHeadings' example_world 0 (js ''https://note.com/a/n/1'') = Inr example_extract' \<and>
   [] \<notin> set (h2 example_extract') \<and> [] \<notin> set (h3 example_extract') \<and>
   parsed_doc example_world 0 (js ''https://note.com/a/n/1'') = Some example_doc \<and>
   length (h2 example_extract) = min 20 (length (filter (\<lambda>t. trim (collapse t) \<noteq> []) (example_doc H2)))"
  using headings_nonempty_in_extract [of example_world 0 "js ''https://note.com/a/n/1''" example_extract example_doc]
    headings_nonempty_in_extract [of example_world 0 "js ''https://note.com/a/n/1''" example_extract' example_doc]
    extractHeadings_example [of 0 "js ''https://note.com/a/n/1''"]
    extractHeadings'_example [of 0 "js ''https://note.com/a/n/1''"]
    parsed_example [of 0 "js ''https://note.com/a/n/1''"]
  by blast

subsection \<open>White space in the extracted texts\<close>

text \<open>
  C7 as stated fails for page_title, which is trimmed and not collapsed: the title
  "  My  note " is returned as "My  note".
\<close>

theorem title_not_collapsed_counterexample:
  "extractHeadings example_world 0 (js ''https://note.com/a/n/1'') = Inr example_extract \<and>
   first_text (example_doc TITLE) = js ''  My  note '' \<and>
   page_title example_extract = js ''My  note'' \<and>
   unwords_js (words_js (js ''  My  note '')) = js ''My note''"
  using extractHeadings_example [of 0 "js ''https://note.com/a/n/1''"]
  by (simp add: example_doc_def first_text_def example_extract_def js_def is_space_def)

text \<open>
  C7, amended. For a page that was fetched and parsed, h1 in the first listing and
  every h2 and h3 item in both listings are the first 200 code units of the normal form
  of the element's text (its words joined by single spaces); page_title is the first
  200 code units of the title's text without its leading and trailing white space, the
  white space inside left as it is.
\<close>

theorem extracted_texts_normal_form:
  "(parsed_doc w n u = Some doc \<and> extractHeadings w n u = Inr p \<longrightarrow>
      page_title p = take 200 (trim (first_text (doc TITLE))) \<and>
      h1 p = take 200 (unwords_js (words_js (first_text (doc H1)))) \<and>
      h2 p = map (take 200) (take 20 (filter (\<lambda>t. t \<noteq> [])
               (map (\<lambda>t. unwords_js (words_js t)) (doc H2)))) \<and>
      h3 p = map (take 200) (take 40 (filter (\<lambda>t. t \<noteq> [])
               (map (\<lambda>t. unwords_js (words_js t)) (doc H3))))) \<and>
   (parsed_doc w n u = Some doc \<and> extractHeadings' w n u = Inr p \<longrightarrow>
      page_title p = take 200 (trim (first_text (doc TITLE))) \<and>
      h2 p = map (take 200) (take 20 (filter (\<lambda>t. t \<noteq> [])
               (map (\<lambda>t. unwords_js (words_js t)) (doc H2)))) \<and>
      h3 p = map (take 200) (take 40 (filter (\<lambda>t. t \<noteq> [])
               (map (\<lambda>t. unwords_js (words_js t)) (doc H3))))) \<and>
   trimmed (trim s) \<and> (\<exists>a b. blank a \<and> blank b \<and> s = a @ trim s @ b)"
proof -
  have h: "headings ts = filter (\<lambda>t. t \<noteq> []) (map (\<lambda>t. unwords_js (words_js t)) ts)" for ts
    by (simp add: headings_def normal_form)
  have 1: "parsed_doc w n u = Some doc \<and> extractHeadings w n u = Inr p \<longrightarrow>
      page_title p = take 200 (trim (first_text (doc TITLE))) \<and>
      h1 p = take 200 (unwords_js (words_js (first_text (doc H1)))) \<and>
      h2 p = map (take 200) (take 20 (filter (\<lambda>t. t \<noteq> [])
               (map (\<lambda>t. unwords_js (words_js t)) (doc H2)))) \<and>
      h3 p = map (take 200) (take 40 (filter (\<lambda>t. t \<noteq> [])
               (map (\<lambda>t. unwords_js (words_js t)) (doc H3))))"
    using parsed_extractHeadings [of w n u doc] by (auto simp: h normal_form)
  have 2: "parsed_doc w n u = Some doc \<and> extractHeadings' w n u = Inr p \<longrightarrow>
      page_title p = take 200 (trim (first_text (doc TITLE))) \<and>
      h2 p = map (take 200) (take 20 (filter (\<lambda>t. t \<noteq> [])
               (map (\<lambda>t. unwords_js (words_js t)) (doc H2)))) \<and>
      h3 p = map (take 200) (take 40 (filter (\<lambda>t. t \<noteq> [])
               (map (\<lambda>t. unwords_js (words_js t)) (doc H3))))"
    using parsed_extractHeadings' [of w n u doc] by (auto simp: h)
  from 1 2 trim_spec [of s] show ?thesis by blast
qed

theorem extracted_texts_normal_form_witness:
  "parsed_doc example_world 0 (js ''https://note.com/a/n/1'') = Some example_doc \<and>
   extractHeadings example_world 0 (js ''https://note.com/a/n/1'') = Inr example_extract \<and>
   extractHeadings' example_world 0 (js ''https://note.com/a/n/1'') = Inr example_extract' \<and>
   h1 example_extract = take 200 (unwords_js (words_js (first_text (example_doc H1)))) \<and>
   h2 example_extract = map (take 200) (take 20 (filter (\<lambda>t. t \<noteq> [])
               (map (\<lambda>t. unwords_js (words_js t)) (example_doc H2)))) \<and>
   h2 example_extract' = map (take 200) (take 20 (filter (\<lambda>t. t \<noteq> [])
               (map (\<lambda>t. unwords_js (words_js t)) (example_doc H2)))) \<and>
   page_title example_extract' = take 200 (trim (first_text (example_doc TITLE)))"
  using extracted_texts_normal_form [where w = example_world and n = 0 and u = "js ''https://note.com/a/n/1''"
        and doc = example_doc and p = example_extract]
    extracted_texts_normal_form [where w = example_world and n = 0 and u = "js ''https://note.com/a/n/1''"
        and doc = example_doc and p = example_extract']
    extractHeadings_example [of 0 "js ''https://note.com/a/n/1''"]
    extractHeadings'_example [of 0 "js ''https://note.com/a/n/1''"]
    parsed_example [of 0 "js ''https://note.com/a/n/1''"]
  by blast

end
